theory Spec2Isabelle
  imports Complex_Main
begin

section \<open>Python floats\<close>

text \<open>
  A Python \<open>float\<close> is an IEEE-754 binary64 number. A finite non-zero value and \<open>+0.0\<close>
  are held as the exact rational they denote (\<open>Finite 0\<close> is \<open>+0.0\<close>); \<open>-0.0\<close>, the two
  infinities and NaN are constructors of their own. Every operation computes the exact
  rational result and rounds it to the nearest binary64 value, ties to even, so results
  are always representable; theorems quantified over \<open>float64\<close> also cover rationals that
  no binary64 value denotes, which only widens them.
\<close>

datatype float64 = Finite rat | NegZero | PosInf | NegInf | NaN

definition pow2 :: "int \<Rightarrow> rat" where
  "pow2 k = (if 0 \<le> k then 2 ^ nat k else 1 / 2 ^ nat (- k))"

text \<open>
  The binary exponent of a positive rational, searched upwards or downwards from 0 and
  clipped to \<open>[-1022, 1024]\<close>: below \<open>-1022\<close> the value is subnormal and keeps the spacing
  of the lowest binade, from \<open>1024\<close> on it overflows whatever its exponent.
\<close>

function exp_up :: "rat \<Rightarrow> int \<Rightarrow> int" where
  "exp_up a k = (if 1024 \<le> k \<or> a < pow2 (k + 1) then k else exp_up a (k + 1))"
  by pat_completeness auto
termination
  by (relation "measure (\<lambda>(a, k). nat (1024 - k))") auto

function exp_down :: "rat \<Rightarrow> int \<Rightarrow> int" where
  "exp_down a k = (if k \<le> - 1022 \<or> pow2 k \<le> a then k else exp_down a (k - 1))"
  by pat_completeness auto
termination
  by (relation "measure (\<lambda>(a, k). nat (k + 1022))") auto

declare exp_up.simps [simp del] exp_down.simps [simp del]

definition binade :: "rat \<Rightarrow> int" where
  "binade a = (if 1 \<le> a then exp_up a 0 else exp_down a 0)"

definition round_half_even :: "rat \<Rightarrow> int" where
  "round_half_even x = (let f = \<lfloor>x\<rfloor>; r = x - of_int f in
     if r < 1 / 2 then f else if 1 / 2 < r then f + 1
     else if even f then f else f + 1)"

text \<open>
  Rounding of an exact result: 53 significant bits, so the spacing in the binade of
  exponent \<open>e\<close> is \<open>2 ^ (e - 52)\<close>; a magnitude that rounds to \<open>2 ^ 1024\<close> or more is an
  infinity, one that rounds to nothing is a zero of the sign of the exact result.
\<close>

definition round64 :: "rat \<Rightarrow> float64" where
  "round64 q = (if q = 0 then Finite 0 else
     let a = \<bar>q\<bar>;
         u = pow2 (binade a - 52);
         r = of_int (round_half_even (a / u)) * u
     in if pow2 1024 \<le> r then (if q < 0 then NegInf else PosInf)
        else if r = 0 then (if q < 0 then NegZero else Finite 0)
        else Finite (if q < 0 then - r else r))"

fun is_inf :: "float64 \<Rightarrow> bool" where
  "is_inf PosInf = True"
| "is_inf NegInf = True"
| "is_inf _ = False"

fun is_zero :: "float64 \<Rightarrow> bool" where
  "is_zero (Finite q) = (q = 0)"
| "is_zero NegZero = True"
| "is_zero _ = False"

text \<open>The sign bit (\<open>True\<close> is negative) and the value of a finite float.\<close>

fun fsign :: "float64 \<Rightarrow> bool" where
  "fsign (Finite q) = (q < 0)"
| "fsign NegZero = True"
| "fsign NegInf = True"
| "fsign _ = False"

fun fval :: "float64 \<Rightarrow> rat" where
  "fval (Finite q) = q"
| "fval _ = 0"

text \<open>\<open>x * y\<close>\<close>

definition fmul :: "float64 \<Rightarrow> float64 \<Rightarrow> float64" where
  "fmul x y =
     (if x = NaN \<or> y = NaN then NaN
      else if is_inf x \<or> is_inf y
        then (if is_zero x \<or> is_zero y then NaN
              else if fsign x \<noteq> fsign y then NegInf else PosInf)
      else if fval x * fval y = 0
        then (if fsign x \<noteq> fsign y then NegZero else Finite 0)
      else round64 (fval x * fval y))"

text \<open>\<open>x + y\<close>: opposite infinities give NaN; a sum of zeros is \<open>-0.0\<close> only when both are.\<close>

definition fadd :: "float64 \<Rightarrow> float64 \<Rightarrow> float64" where
  "fadd x y =
     (if x = NaN \<or> y = NaN then NaN
      else if is_inf x \<and> is_inf y then (if x = y then x else NaN)
      else if is_inf x then x
      else if is_inf y then y
      else if x = NegZero \<and> y = NegZero then NegZero
      else round64 (fval x + fval y))"

text \<open>
  Comparison: NaN compares false with everything; the others are ordered as extended
  rationals, the two zeros being equal.
\<close>

fun frank :: "float64 \<Rightarrow> int" where
  "frank NegInf = - 1"
| "frank PosInf = 1"
| "frank _ = 0"

definition flt :: "float64 \<Rightarrow> float64 \<Rightarrow> bool" where
  "flt x y = (x \<noteq> NaN \<and> y \<noteq> NaN \<and>
     (frank x < frank y \<or> frank x = frank y \<and> fval x < fval y))"

definition fle :: "float64 \<Rightarrow> float64 \<Rightarrow> bool" where
  "fle x y = (x \<noteq> NaN \<and> y \<noteq> NaN \<and>
     (frank x < frank y \<or> frank x = frank y \<and> fval x \<le> fval y))"

text \<open>
  The builtins \<open>min(a, b)\<close> and \<open>max(a, b)\<close> keep the first argument unless the second
  compares strictly smaller (larger).
\<close>

definition py_min :: "float64 \<Rightarrow> float64 \<Rightarrow> float64" where
  "py_min a b = (if flt b a then b else a)"

definition py_max :: "float64 \<Rightarrow> float64 \<Rightarrow> float64" where
  "py_max a b = (if flt a b then b else a)"

section \<open>Python strings\<close>

text \<open>
  \<open>str.lower\<close> on the ASCII letters; other characters are kept. The result is only ever
  compared with the ASCII words \<open>patient\<close> and \<open>doctor\<close>, and no character outside ASCII
  lower-cases to one of their letters.
\<close>

definition lower_char :: "char \<Rightarrow> char" where
  "lower_char c =
     (case map_of (zip ''ABCDEFGHIJKLMNOPQRSTUVWXYZ'' ''abcdefghijklmnopqrstuvwxyz'') c of
        Some d \<Rightarrow> d | None \<Rightarrow> c)"

definition lower :: "string \<Rightarrow> string" where
  "lower s = map lower_char s"

text \<open>
  A password is held as the list of its code points, because whether \<open>str.encode()\<close>
  accepts it depends on them: the UTF-8 encoder raises \<open>UnicodeEncodeError\<close> at a
  surrogate (\<open>U+D800\<close> to \<open>U+DFFF\<close>), which a JSON body can carry. \<open>None\<close> is that
  exception; otherwise the result is the list of bytes. The other strings are only
  compared and stored, and are held as \<open>string\<close>.
\<close>

definition utf8 :: "nat \<Rightarrow> nat list" where
  "utf8 c =
     (if c < 128 then [c]
      else if c < 2048 then [192 + c div 64, 128 + c mod 64]
      else if c < 65536 then [224 + c div 4096, 128 + c div 64 mod 64, 128 + c mod 64]
      else [240 + c div 262144, 128 + c div 4096 mod 64, 128 + c div 64 mod 64,
            128 + c mod 64])"

fun encode :: "nat list \<Rightarrow> nat list option" where
  "encode [] = Some []"
| "encode (c # cs) =
     (if 55296 \<le> c \<and> c \<le> 57343 then None
      else case encode cs of None \<Rightarrow> None | Some bs \<Rightarrow> Some (utf8 c @ bs))"

text \<open>Truth value of an \<open>Optional[str]\<close>: \<open>None\<close> and the empty string are false.\<close>

definition truthy :: "string option \<Rightarrow> bool" where
  "truthy x = (case x of None \<Rightarrow> False | Some t \<Rightarrow> t \<noteq> [])"

section \<open>schemas.py\<close>

record Patient =
  name :: string
  email :: string
  password_hash :: string
  age :: "int option"
  gender :: "string option"

record Doctor =
  name :: string
  email :: string
  password_hash :: string
  specialty :: "string option"
  hospital :: "string option"

record Assessment =
  patient_id :: string
  features :: "(string \<times> float64) list"
  score :: float64
  probability :: float64
  result_label :: string
  "notes" :: "string option"
  reviewed_by :: "string option"
  feedback_id :: "string option"

record Feedback =
  doctor_id :: string
  assessment_id :: string
  message :: string
  severity :: "string option"
  recommendations :: "string list option"

record Session =
  user_id :: string
  role :: string
  token :: string

text \<open>
  The constraints \<open>ge=0.0, le=1.0\<close> on \<open>score\<close> and \<open>probability\<close>, checked when an
  \<open>Assessment\<close> is constructed.
\<close>

definition Assessment_valid :: "Assessment \<Rightarrow> bool" where
  "Assessment_valid a =
     (fle (Finite 0) (Assessment.score a) \<and> fle (Assessment.score a) (Finite 1) \<and>
      fle (Finite 0) (Assessment.probability a) \<and> fle (Assessment.probability a) (Finite 1))"

section \<open>The document store\<close>

text \<open>
  The module \<open>database\<close>, which main.py imports \<open>create_document\<close> and \<open>get_documents\<close>
  from, is not among the sources; both are modelled from the specification's document
  store gateway. A stored document is the assigned \<open>_id\<close> paired with the fields of the
  schema; a collection is the list of its documents, oldest first.
\<close>

type_synonym 'a document = "string \<times> 'a"

record store =
  patient :: "Patient document list"
  doctor :: "Doctor document list"
  assessment :: "Assessment document list"
  feedback :: "Feedback document list"
  session :: "Session document list"

text \<open>
  Modelled from the spec: \<open>create_document\<close> of the missing module \<open>database\<close>, given as
  \<open>create(collection, document) -> id\<close>, which assigns and returns an opaque identifier.
  The identifier the store assigns is the argument \<open>oid\<close>, since the specification says
  nothing of how it is chosen; the result is that identifier and the collection with
  the document added.
\<close>

definition create_document :: "'a document list \<Rightarrow> 'a \<Rightarrow> string \<Rightarrow> string \<times> 'a document list" where
  "create_document coll data oid = (oid, coll @ [(oid, data)])"

text \<open>
  Modelled from the spec: \<open>get_documents\<close> of the missing module \<open>database\<close>, given as
  \<open>find(collection, filter, limit?) -> [document]\<close>, an equality-filter match over the
  documents of the collection. The filter dictionary is the predicate it denotes; with a
  limit, at most that many of the matching documents are returned.
\<close>

definition get_documents ::
  "'a document list \<Rightarrow> ('a document \<Rightarrow> bool) \<Rightarrow> nat option \<Rightarrow> 'a document list" where
  "get_documents coll filter_dict limit =
     (case limit of None \<Rightarrow> filter filter_dict coll
                  | Some n \<Rightarrow> take n (filter filter_dict coll))"

definition empty_store :: store where
  "empty_store = \<lparr>patient = [], doctor = [], assessment = [], feedback = [], session = []\<rparr>"

section \<open>main.py\<close>

text \<open>
  What an endpoint can raise: \<open>HTTPException(status, detail)\<close>; the \<open>UnicodeEncodeError\<close> of
  \<open>password.encode()\<close>, which nothing catches; and the two exceptions the body of \<open>predict\<close>
  could raise outside of these (a failed model constraint, a missing attribute), which
  no input reaches.
\<close>

datatype failure =
  HTTPException nat string | UnicodeEncodeError | ConstraintError | AttributeError

record RegisterRequest =
  role :: string
  name :: string
  email :: string
  password :: "nat list"

record LoginRequest =
  role :: string
  email :: string
  password :: "nat list"

record PredictionRequest =
  eye_contact :: float64
  speech_delay :: float64
  repetitive_behavior :: float64
  sensory_sensitivity :: float64
  social_interaction_difficulty :: float64
  "notes" :: "string option"

record FeedbackRequest =
  assessment_id :: string
  message :: string
  severity :: "string option"
  recommendations :: "string list option"

text \<open>The dictionaries the endpoints return.\<close>

record AuthResponse =
  token :: string
  role :: string
  user_id :: string
  name :: string
  email :: string

record PredictResponse =
  assessment_id :: string
  probability :: float64
  label :: string

text \<open>
  \<open>hashlib.sha256(bytes).hexdigest()\<close>, a library function that is total on bytes, is the
  parameter \<open>sha256\<close> of the functions that hash; \<open>password.encode()\<close> runs first and can
  raise.
\<close>

definition hash_password :: "(nat list \<Rightarrow> string) \<Rightarrow> nat list \<Rightarrow> failure + string" where
  "hash_password sha256 pw =
     (case encode pw of None \<Rightarrow> Inl UnicodeEncodeError | Some bs \<Rightarrow> Inr (sha256 bs))"

definition verify_password ::
  "(nat list \<Rightarrow> string) \<Rightarrow> nat list \<Rightarrow> string \<Rightarrow> failure + bool" where
  "verify_password sha256 pw pw_hash =
     (case encode pw of None \<Rightarrow> Inl UnicodeEncodeError
                      | Some bs \<Rightarrow> Inr (sha256 bs = pw_hash))"

text \<open>
  \<open>create_session\<close>: \<open>tok\<close> is the value \<open>secrets.token_urlsafe(24)\<close> returns, \<open>oid\<close> the
  identifier the store assigns to the session document.
\<close>

definition create_session :: "string \<Rightarrow> string \<Rightarrow> string \<Rightarrow> string \<Rightarrow> store \<Rightarrow> string \<times> store" where
  "create_session uid r tok oid s =
     (case create_document (session s) \<lparr>Session.user_id = uid, role = r, token = tok\<rparr> oid of
        (_, ss) \<Rightarrow> (tok, s\<lparr>session := ss\<rparr>))"

datatype user_doc = PatientDoc "Patient document" | DoctorDoc "Doctor document"

fun user_get_id :: "user_doc \<Rightarrow> string" where
  "user_get_id (PatientDoc d) = fst d"
| "user_get_id (DoctorDoc d) = fst d"

fun user_get_name :: "user_doc \<Rightarrow> string" where
  "user_get_name (PatientDoc d) = Patient.name (snd d)"
| "user_get_name (DoctorDoc d) = Doctor.name (snd d)"

fun user_get_email :: "user_doc \<Rightarrow> string" where
  "user_get_email (PatientDoc d) = Patient.email (snd d)"
| "user_get_email (DoctorDoc d) = Doctor.email (snd d)"

fun user_get_password_hash :: "user_doc \<Rightarrow> string" where
  "user_get_password_hash (PatientDoc d) = Patient.password_hash (snd d)"
| "user_get_password_hash (DoctorDoc d) = Doctor.password_hash (snd d)"

definition get_user_by_email :: "string \<Rightarrow> string \<Rightarrow> store \<Rightarrow> user_doc option" where
  "get_user_by_email r e s =
     (if r = ''patient''
      then (case get_documents (patient s) (\<lambda>d. Patient.email (snd d) = e) (Some 1) of
              [] \<Rightarrow> None | u # _ \<Rightarrow> Some (PatientDoc u))
      else (case get_documents (doctor s) (\<lambda>d. Doctor.email (snd d) = e) (Some 1) of
              [] \<Rightarrow> None | u # _ \<Rightarrow> Some (DoctorDoc u)))"

text \<open>
  \<open>register\<close>: \<open>user_oid\<close> and \<open>sess_oid\<close> are the identifiers the store assigns to the user
  and to the session document, \<open>tok\<close> the generated token.
\<close>

definition register ::
  "(nat list \<Rightarrow> string) \<Rightarrow> RegisterRequest \<Rightarrow> string \<Rightarrow> string \<Rightarrow> string \<Rightarrow> store
     \<Rightarrow> failure + AuthResponse \<times> store" where
  "register sha256 req user_oid tok sess_oid s =
     (let r = lower (RegisterRequest.role req) in
      if r \<notin> set [''patient'', ''doctor'']
        then Inl (HTTPException 400 ''Role must be patient or doctor'')
      else if get_user_by_email r (RegisterRequest.email req) s \<noteq> None
        then Inl (HTTPException 409 ''Email already registered'')
      else
        case hash_password sha256 (RegisterRequest.password req) of
          Inl e \<Rightarrow> Inl e
        | Inr pw_hash \<Rightarrow>
            let (uid, s1) =
                  (if r = ''patient''
                   then (case create_document (patient s)
                           \<lparr>Patient.name = RegisterRequest.name req,
                            email = RegisterRequest.email req,
                            password_hash = pw_hash, age = None, gender = None\<rparr> user_oid of
                         (i, ps) \<Rightarrow> (i, s\<lparr>patient := ps\<rparr>))
                   else (case create_document (doctor s)
                           \<lparr>Doctor.name = RegisterRequest.name req,
                            email = RegisterRequest.email req,
                            password_hash = pw_hash, specialty = None, hospital = None\<rparr>
                           user_oid of
                         (i, ds) \<Rightarrow> (i, s\<lparr>doctor := ds\<rparr>)));
                (t, s2) = create_session uid r tok sess_oid s1
            in Inr (\<lparr>AuthResponse.token = t, role = r, user_id = uid,
                     name = RegisterRequest.name req, email = RegisterRequest.email req\<rparr>, s2))"

definition login ::
  "(nat list \<Rightarrow> string) \<Rightarrow> LoginRequest \<Rightarrow> string \<Rightarrow> string \<Rightarrow> store
     \<Rightarrow> failure + AuthResponse \<times> store" where
  "login sha256 req tok sess_oid s =
     (let r = lower (LoginRequest.role req) in
      if r \<notin> set [''patient'', ''doctor'']
        then Inl (HTTPException 400 ''Role must be patient or doctor'')
      else
        case get_user_by_email r (LoginRequest.email req) s of
          None \<Rightarrow> Inl (HTTPException 401 ''Invalid credentials'')
        | Some u \<Rightarrow>
            (case verify_password sha256 (LoginRequest.password req)
                    (user_get_password_hash u) of
               Inl e \<Rightarrow> Inl e
             | Inr ok \<Rightarrow>
                 if \<not> ok then Inl (HTTPException 401 ''Invalid credentials'')
                 else
                   (case create_session (user_get_id u) r tok sess_oid s of
                      (t, s1) \<Rightarrow>
                        Inr (\<lparr>AuthResponse.token = t, role = r, user_id = user_get_id u,
                              name = user_get_name u, email = user_get_email u\<rparr>, s1))))"

subsection \<open>predict\<close>

text \<open>Float literals denote the binary64 value nearest to the decimal.\<close>

definition weights :: "(string \<times> float64) list" where
  "weights =
     [(''eye_contact'', round64 (18 / 100)),
      (''speech_delay'', round64 (22 / 100)),
      (''repetitive_behavior'', round64 (22 / 100)),
      (''sensory_sensitivity'', round64 (2 / 10)),
      (''social_interaction_difficulty'', round64 (18 / 100))]"

definition getattr :: "PredictionRequest \<Rightarrow> string \<Rightarrow> float64 option" where
  "getattr req k =
     (if k = ''eye_contact'' then Some (eye_contact req)
      else if k = ''speech_delay'' then Some (speech_delay req)
      else if k = ''repetitive_behavior'' then Some (repetitive_behavior req)
      else if k = ''sensory_sensitivity'' then Some (sensory_sensitivity req)
      else if k = ''social_interaction_difficulty'' then Some (social_interaction_difficulty req)
      else None)"

text \<open>The loop \<open>for k, w in weights.items(): total += getattr(req, k) * w\<close>.\<close>

fun weighted_total :: "PredictionRequest \<Rightarrow> (string \<times> float64) list \<Rightarrow> float64 \<Rightarrow> float64 option" where
  "weighted_total req [] tot = Some tot"
| "weighted_total req ((k, w) # kws) tot =
     (case getattr req k of
        None \<Rightarrow> None
      | Some v \<Rightarrow> weighted_total req kws (fadd tot (fmul v w)))"

definition risk_label :: "float64 \<Rightarrow> string" where
  "risk_label p =
     (if flt p (round64 (33 / 100)) then ''Low Risk''
      else if flt p (round64 (66 / 100)) then ''Moderate Risk''
      else ''High Risk'')"

text \<open>Lines 122 to 139 of \<open>predict\<close>: the probability and its label.\<close>

definition scoring :: "PredictionRequest \<Rightarrow> (float64 \<times> string) option" where
  "scoring req =
     (case weighted_total req weights (Finite 0) of
        None \<Rightarrow> None
      | Some tot \<Rightarrow>
          let p = py_max (Finite 0) (py_min (Finite 1) tot)
          in Some (p, risk_label p))"

text \<open>Lines 142 to 148: the patient the assessment is recorded for.\<close>

definition resolve_pid :: "string option \<Rightarrow> string option \<Rightarrow> store \<Rightarrow> string option" where
  "resolve_pid tok uid s =
     (if truthy tok \<and> \<not> truthy uid
      then (case get_documents (session s) (\<lambda>d. Some (Session.token (snd d)) = tok) (Some 1) of
              [] \<Rightarrow> uid
            | sess # _ \<Rightarrow>
                if Session.role (snd sess) = ''patient''
                then Some (Session.user_id (snd sess)) else uid)
      else uid)"

definition predict ::
  "PredictionRequest \<Rightarrow> string option \<Rightarrow> string option \<Rightarrow> string \<Rightarrow> store
     \<Rightarrow> failure + PredictResponse \<times> store" where
  "predict req tok uid oid s =
     (if \<not> truthy tok \<and> \<not> truthy uid
        then Inl (HTTPException 401 ''Authentication required'')
      else
        case scoring req of
          None \<Rightarrow> Inl AttributeError
        | Some (p, l) \<Rightarrow>
            let pid = resolve_pid tok uid s;
                a = \<lparr>Assessment.patient_id = (if truthy pid then the pid else ''unknown''),
                     features =
                       [(''eye_contact'', eye_contact req),
                        (''speech_delay'', speech_delay req),
                        (''repetitive_behavior'', repetitive_behavior req),
                        (''sensory_sensitivity'', sensory_sensitivity req),
                        (''social_interaction_difficulty'', social_interaction_difficulty req)],
                     score = p, probability = p, result_label = l,
                     notes = Some (if truthy (PredictionRequest.notes req)
                                   then the (PredictionRequest.notes req) else []),
                     reviewed_by = None, feedback_id = None\<rparr>
            in if \<not> Assessment_valid a then Inl ConstraintError
               else
                 (case create_document (assessment s) a oid of
                    (aid, as) \<Rightarrow>
                      Inr (\<lparr>PredictResponse.assessment_id = aid, probability = p, label = l\<rparr>,
                           s\<lparr>assessment := as\<rparr>)))"

subsection \<open>The role-gated endpoints\<close>

definition patient_assessments :: "string \<Rightarrow> store \<Rightarrow> failure + Assessment document list" where
  "patient_assessments tok s =
     (case get_documents (session s) (\<lambda>d. Session.token (snd d) = tok) (Some 1) of
        [] \<Rightarrow> Inl (HTTPException 401 ''Unauthorized'')
      | sess # _ \<Rightarrow>
          if Session.role (snd sess) \<noteq> ''patient'' then Inl (HTTPException 401 ''Unauthorized'')
          else Inr (get_documents (assessment s)
                      (\<lambda>d. Assessment.patient_id (snd d) = Session.user_id (snd sess)) None))"

definition doctor_assessments :: "string \<Rightarrow> store \<Rightarrow> failure + Assessment document list" where
  "doctor_assessments tok s =
     (case get_documents (session s) (\<lambda>d. Session.token (snd d) = tok) (Some 1) of
        [] \<Rightarrow> Inl (HTTPException 401 ''Unauthorized'')
      | sess # _ \<Rightarrow>
          if Session.role (snd sess) \<noteq> ''doctor'' then Inl (HTTPException 401 ''Unauthorized'')
          else Inr (get_documents (assessment s) (\<lambda>d. True) None))"

definition doctor_feedback ::
  "FeedbackRequest \<Rightarrow> string \<Rightarrow> string \<Rightarrow> store \<Rightarrow> failure + string \<times> store" where
  "doctor_feedback req tok oid s =
     (case get_documents (session s) (\<lambda>d. Session.token (snd d) = tok) (Some 1) of
        [] \<Rightarrow> Inl (HTTPException 401 ''Unauthorized'')
      | sess # _ \<Rightarrow>
          if Session.role (snd sess) \<noteq> ''doctor'' then Inl (HTTPException 401 ''Unauthorized'')
          else
            (case create_document (feedback s)
                    \<lparr>Feedback.doctor_id = Session.user_id (snd sess),
                     assessment_id = FeedbackRequest.assessment_id req,
                     message = FeedbackRequest.message req,
                     severity = FeedbackRequest.severity req,
                     recommendations =
                       Some (case FeedbackRequest.recommendations req of
                               None \<Rightarrow> [] | Some rs \<Rightarrow> rs)\<rparr> oid of
               (fid, fs) \<Rightarrow> Inr (fid, s\<lparr>feedback := fs\<rparr>)))"

section \<open>Vocabulary of the properties\<close>

text \<open>The e-mail addresses registered in the collection of a role.\<close>

definition role_emails :: "string \<Rightarrow> store \<Rightarrow> string set" where
  "role_emails r s =
     (if r = ''patient'' then (\<lambda>d. Patient.email (snd d)) ` set (patient s)
      else (\<lambda>d. Doctor.email (snd d)) ` set (doctor s))"


text \<open>
  The users of the collection of a role, each as identifier, name, address and stored
  digest, in the order of the collection; and the user a login finds: the first of them
  with the address.
\<close>

definition role_users :: "string \<Rightarrow> store \<Rightarrow> (string \<times> string \<times> string \<times> string) list" where
  "role_users r s =
     (if r = ''patient''
      then map (\<lambda>d. (fst d, Patient.name (snd d), Patient.email (snd d),
                      Patient.password_hash (snd d))) (patient s)
      else map (\<lambda>d. (fst d, Doctor.name (snd d), Doctor.email (snd d),
                      Doctor.password_hash (snd d))) (doctor s))"

definition found_user ::
  "string \<Rightarrow> string \<Rightarrow> store \<Rightarrow> (string \<times> string \<times> string \<times> string) option" where
  "found_user r e s = find (\<lambda>u. fst (snd (snd u)) = e) (role_users r s)"

text \<open>
  The session a token resolves to: the first document of the session collection that
  carries the token, as every endpoint looks it up (\<open>limit=1\<close>).
\<close>

definition resolve_session :: "string \<Rightarrow> store \<Rightarrow> Session option" where
  "resolve_session tok s =
     (case get_documents (session s) (\<lambda>d. Session.token (snd d) = tok) (Some 1) of
        [] \<Rightarrow> None | d # _ \<Rightarrow> Some (snd d))"

text \<open>
  The value of \<open>total\<close> when the loop of \<open>predict\<close> ends: the five products added in the
  order of the dictionary, starting from \<open>0.0\<close>.
\<close>

definition weighted_sum :: "PredictionRequest \<Rightarrow> float64" where
  "weighted_sum req =
     fadd (fadd (fadd (fadd (fadd (Finite 0)
       (fmul (eye_contact req) (round64 (18 / 100))))
       (fmul (speech_delay req) (round64 (22 / 100))))
       (fmul (repetitive_behavior req) (round64 (22 / 100))))
       (fmul (sensory_sensitivity req) (round64 (2 / 10))))
       (fmul (social_interaction_difficulty req) (round64 (18 / 100)))"

text \<open>
  The sum as the specification writes it: weight times answer, the five products added
  from the left, with no starting \<open>0.0\<close>.
\<close>

definition spec_weighted_sum :: "PredictionRequest \<Rightarrow> float64" where
  "spec_weighted_sum req =
     fadd (fadd (fadd (fadd
       (fmul (round64 (18 / 100)) (eye_contact req))
       (fmul (round64 (22 / 100)) (speech_delay req)))
       (fmul (round64 (22 / 100)) (repetitive_behavior req)))
       (fmul (round64 (2 / 10)) (sensory_sensitivity req)))
       (fmul (round64 (18 / 100)) (social_interaction_difficulty req))"

text \<open>Two floats that are equal as numbers: the same float, or two zeros.\<close>

definition same_value :: "float64 \<Rightarrow> float64 \<Rightarrow> bool" where
  "same_value a b = (a = b \<or> is_zero a \<and> is_zero b)"

text \<open>The expression \<open>max(0.0, min(1.0, x))\<close>.\<close>

definition clamp01 :: "float64 \<Rightarrow> float64" where
  "clamp01 x = py_max (Finite 0) (py_min (Finite 1) x)"

text \<open>
  The \<open>patient_id\<close> an assessment is recorded with: a non-empty \<open>user_id\<close> argument;
  failing that, the user of the session a non-empty token resolves to, when that session
  has role \<open>patient\<close> and a non-empty user; otherwise \<open>unknown\<close>.
\<close>

definition recorded_patient :: "string option \<Rightarrow> string option \<Rightarrow> store \<Rightarrow> string" where
  "recorded_patient tok uid s =
     (if truthy uid then the uid
      else if truthy tok
        then (case resolve_session (the tok) s of
                None \<Rightarrow> ''unknown''
              | Some sess \<Rightarrow>
                  if Session.role sess = ''patient'' \<and> Session.user_id sess \<noteq> []
                  then Session.user_id sess else ''unknown'')
      else ''unknown'')"

text \<open>
  A store in which every user document has a non-empty identifier and every session a
  non-empty \<open>user_id\<close>, as is the case when the store never assigns the empty string.
\<close>

definition ids_nonempty :: "store \<Rightarrow> bool" where
  "ids_nonempty s =
     ((\<forall>d\<in>set (patient s). fst d \<noteq> []) \<and> (\<forall>d\<in>set (doctor s). fst d \<noteq> []) \<and>
      (\<forall>d\<in>set (session s). Session.user_id (snd d) \<noteq> []))"

section \<open>Example data\<close>

text \<open>
  A store in which Ann is registered as a doctor and logged in, and a request that
  registers her as a patient under the same address. Her password is \<open>secret\<close>, given by
  its code points. In the examples the digest writes the parity of each byte, last byte
  first.
\<close>

definition ex_digest :: "nat list \<Rightarrow> string" where
  "ex_digest bs = map (\<lambda>b. if even b then CHR ''0'' else CHR ''1'') (rev bs)"

definition ex_user :: RegisterRequest where
  "ex_user = \<lparr>RegisterRequest.role = ''Patient'', name = ''Ann'', email = ''ann@example.org'', password = [115, 101, 99, 114, 101, 116]\<rparr>"

definition ex_store :: store where
  "ex_store = \<lparr>patient = [], 
     doctor = [(''d1'', \<lparr>Doctor.name = ''Ann'', email = ''ann@example.org'', password_hash = ''010111'',
                      specialty = None, hospital = None\<rparr>)],
     assessment = [], feedback = [],
     session = [(''s1'', \<lparr>Session.user_id = ''d1'', role = ''doctor'', token = ''tok-d1''\<rparr>)]\<rparr>"

definition ex_resp :: AuthResponse where
  "ex_resp = \<lparr>AuthResponse.token = ''tok-p1'', role = ''patient'', user_id = ''p1'',
               name = ''Ann'', email = ''ann@example.org''\<rparr>"

definition ex_store_registered :: store where
  "ex_store_registered =
     ex_store\<lparr>patient := [(''p1'', \<lparr>Patient.name = ''Ann'', email = ''ann@example.org'',
                           password_hash = ''010111'', age = None, gender = None\<rparr>)],
       session := [(''s1'', \<lparr>Session.user_id = ''d1'', role = ''doctor'', token = ''tok-d1''\<rparr>),
                   (''s2'', \<lparr>Session.user_id = ''p1'', role = ''patient'', token = ''tok-p1''\<rparr>)]\<rparr>"



definition ex_feedback :: FeedbackRequest where
  "ex_feedback = \<lparr>FeedbackRequest.assessment_id = ''no-such-assessment'', message = ''see me'',
     severity = None, recommendations = None\<rparr>"

definition ex_assessments :: store where
  "ex_assessments = ex_store_registered\<lparr>assessment :=
     [(''a1'', \<lparr>Assessment.patient_id = ''p1'', features = [], score = Finite 0,
               probability = Finite 0, result_label = ''Low Risk'', notes = Some [],
               reviewed_by = None, feedback_id = None\<rparr>),
      (''a2'', \<lparr>Assessment.patient_id = ''p2'', features = [], score = Finite 1,
               probability = Finite 1, result_label = ''High Risk'', notes = Some [],
               reviewed_by = None, feedback_id = None\<rparr>),
      (''a3'', \<lparr>Assessment.patient_id = ''unknown'', features = [], score = Finite 1,
               probability = Finite 1, result_label = ''High Risk'', notes = Some [],
               reviewed_by = None, feedback_id = None\<rparr>)]\<rparr>"

text \<open>A questionnaire whose five answers are all the same.\<close>

definition all_features :: "float64 \<Rightarrow> string option \<Rightarrow> PredictionRequest" where
  "all_features v n = \<lparr>eye_contact = v, speech_delay = v, repetitive_behavior = v,
     sensory_sensitivity = v, social_interaction_difficulty = v, notes = n\<rparr>"

section \<open>Evaluating floats\<close>

text \<open>
  Rounding is evaluated from its specification: an integer within half a unit of the
  scaled value, the even one on a tie, is the rounded significand. The literals of
  \<open>predict\<close> and the sums of the three example questionnaires follow.
\<close>

lemma round_half_even_eqI:
  assumes "2 * \<bar>x - of_int m\<bar> < 1 \<or> (2 * \<bar>x - of_int m\<bar> = 1 \<and> even m)"
  shows "round_half_even x = m"
proof (cases "of_int m \<le> x")
  case True
  with assms have "x < of_int m + 1" by auto
  with True have f: "\<lfloor>x\<rfloor> = m" by (simp add: floor_unique)
  show ?thesis using assms True by (auto simp: round_half_even_def Let_def f)
next
  case False
  with assms have "of_int m - 1 \<le> x" by auto
  with False have f: "\<lfloor>x\<rfloor> = m - 1" by (intro floor_unique) auto
  show ?thesis using assms False by (auto simp: round_half_even_def Let_def f)
qed

lemma round64_posI:
  assumes "0 < q" and "binade q = e"
    and "2 * \<bar>q / pow2 (e - 52) - of_int m\<bar> < 1 \<or>
         (2 * \<bar>q / pow2 (e - 52) - of_int m\<bar> = 1 \<and> even m)"
    and "0 < m" and "of_int m * pow2 (e - 52) < pow2 1024"
  shows "round64 q = Finite (of_int m * pow2 (e - 52))"
proof -
  have r: "round_half_even (q / pow2 (e - 52)) = m"
    using assms(3) by (rule round_half_even_eqI)
  have p: "0 < pow2 (e - 52)" by (simp add: pow2_def)
  have nz: "of_int m * pow2 (e - 52) \<noteq> 0" using assms(4) p by simp
  show ?thesis
    using assms(1,2,5) nz by (simp add: round64_def Let_def r)
qed

lemmas float_eval = binade_def exp_up.simps exp_down.simps pow2_def

lemma lit_018: "round64 (18 / 100) = Finite (3242591731706757 / 18014398509481984)"
proof -
  have "round64 (18 / 100) = Finite (of_int 6485183463413514 * pow2 (-3 - 52))"
    by (rule round64_posI) (simp_all add: float_eval)
  then show ?thesis by (simp add: pow2_def)
qed

lemma lit_022: "round64 (22 / 100) = Finite (7926335344172073 / 36028797018963968)"
proof -
  have "round64 (22 / 100) = Finite (of_int 7926335344172073 * pow2 (-3 - 52))"
    by (rule round64_posI) (simp_all add: float_eval)
  then show ?thesis by (simp add: pow2_def)
qed

lemma lit_020: "round64 (2 / 10) = Finite (3602879701896397 / 18014398509481984)"
proof -
  have "round64 (2 / 10) = Finite (of_int 7205759403792794 * pow2 (-3 - 52))"
    by (rule round64_posI) (simp_all add: float_eval)
  then show ?thesis by (simp add: pow2_def)
qed

lemma lit_033: "round64 (33 / 100) = Finite (5944751508129055 / 18014398509481984)"
proof -
  have "round64 (33 / 100) = Finite (of_int 5944751508129055 * pow2 (-2 - 52))"
    by (rule round64_posI) (simp_all add: float_eval)
  then show ?thesis by (simp add: pow2_def)
qed

lemma lit_066: "round64 (66 / 100) = Finite (5944751508129055 / 9007199254740992)"
proof -
  have "round64 (66 / 100) = Finite (of_int 5944751508129055 * pow2 (-1 - 52))"
    by (rule round64_posI) (simp_all add: float_eval)
  then show ?thesis by (simp add: pow2_def)
qed

lemma mul_one_018: "fmul (Finite (1)) (Finite (3242591731706757 / 18014398509481984)) = Finite (3242591731706757 / 18014398509481984)"
proof -
  have "round64 (1 * 3242591731706757 / 18014398509481984) = Finite (of_int 6485183463413514 * pow2 (-3 - 52))"
    by (rule round64_posI) (simp_all add: float_eval)
  then show ?thesis by (simp add: fmul_def pow2_def)
qed

lemma mul_one_022: "fmul (Finite (1)) (Finite (7926335344172073 / 36028797018963968)) = Finite (7926335344172073 / 36028797018963968)"
proof -
  have "round64 (1 * 7926335344172073 / 36028797018963968) = Finite (of_int 7926335344172073 * pow2 (-3 - 52))"
    by (rule round64_posI) (simp_all add: float_eval)
  then show ?thesis by (simp add: fmul_def pow2_def)
qed

lemma mul_one_020: "fmul (Finite (1)) (Finite (3602879701896397 / 18014398509481984)) = Finite (3602879701896397 / 18014398509481984)"
proof -
  have "round64 (1 * 3602879701896397 / 18014398509481984) = Finite (of_int 7205759403792794 * pow2 (-3 - 52))"
    by (rule round64_posI) (simp_all add: float_eval)
  then show ?thesis by (simp add: fmul_def pow2_def)
qed

lemma add_one_1: "fadd (Finite 0) (Finite (3242591731706757 / 18014398509481984)) = Finite (3242591731706757 / 18014398509481984)"
proof -
  have "round64 (3242591731706757 / 18014398509481984) = Finite (of_int 6485183463413514 * pow2 (-3 - 52))"
    by (rule round64_posI) (simp_all add: float_eval)
  then show ?thesis by (simp add: fadd_def pow2_def)
qed

lemma add_one_2: "fadd (Finite (3242591731706757 / 18014398509481984)) (Finite (7926335344172073 / 36028797018963968)) = Finite (3602879701896397 / 9007199254740992)"
proof -
  have "round64 (3242591731706757 / 18014398509481984 + 7926335344172073 / 36028797018963968) = Finite (of_int 7205759403792794 * pow2 (-2 - 52))"
    by (rule round64_posI) (simp_all add: float_eval)
  then show ?thesis by (simp add: fadd_def pow2_def)
qed

lemma add_one_3: "fadd (Finite (3602879701896397 / 9007199254740992)) (Finite (7926335344172073 / 36028797018963968)) = Finite (5584463537939415 / 9007199254740992)"
proof -
  have "round64 (3602879701896397 / 9007199254740992 + 7926335344172073 / 36028797018963968) = Finite (of_int 5584463537939415 * pow2 (-1 - 52))"
    by (rule round64_posI) (simp_all add: float_eval)
  then show ?thesis by (simp add: fadd_def pow2_def)
qed

lemma add_one_4: "fadd (Finite (5584463537939415 / 9007199254740992)) (Finite (3602879701896397 / 18014398509481984)) = Finite (3692951694443807 / 4503599627370496)"
proof -
  have "round64 (5584463537939415 / 9007199254740992 + 3602879701896397 / 18014398509481984) = Finite (of_int 7385903388887614 * pow2 (-1 - 52))"
    by (rule round64_posI) (simp_all add: float_eval)
  then show ?thesis by (simp add: fadd_def pow2_def)
qed

lemma add_one_5: "fadd (Finite (3692951694443807 / 4503599627370496)) (Finite (3242591731706757 / 18014398509481984)) = Finite (1)"
proof -
  have "round64 (3692951694443807 / 4503599627370496 + 3242591731706757 / 18014398509481984) = Finite (of_int 4503599627370496 * pow2 (0 - 52))"
    by (rule round64_posI) (simp_all add: float_eval)
  then show ?thesis by (simp add: fadd_def pow2_def)
qed

lemma mul_half_018: "fmul (Finite (1 / 2)) (Finite (3242591731706757 / 18014398509481984)) = Finite (3242591731706757 / 36028797018963968)"
proof -
  have "round64 (1 / 2 * 3242591731706757 / 18014398509481984) = Finite (of_int 6485183463413514 * pow2 (-4 - 52))"
    by (rule round64_posI) (simp_all add: float_eval)
  then show ?thesis by (simp add: fmul_def pow2_def)
qed

lemma mul_half_022: "fmul (Finite (1 / 2)) (Finite (7926335344172073 / 36028797018963968)) = Finite (7926335344172073 / 72057594037927936)"
proof -
  have "round64 (1 / 2 * 7926335344172073 / 36028797018963968) = Finite (of_int 7926335344172073 * pow2 (-4 - 52))"
    by (rule round64_posI) (simp_all add: float_eval)
  then show ?thesis by (simp add: fmul_def pow2_def)
qed

lemma mul_half_020: "fmul (Finite (1 / 2)) (Finite (3602879701896397 / 18014398509481984)) = Finite (3602879701896397 / 36028797018963968)"
proof -
  have "round64 (1 / 2 * 3602879701896397 / 18014398509481984) = Finite (of_int 7205759403792794 * pow2 (-4 - 52))"
    by (rule round64_posI) (simp_all add: float_eval)
  then show ?thesis by (simp add: fmul_def pow2_def)
qed

lemma add_half_1: "fadd (Finite 0) (Finite (3242591731706757 / 36028797018963968)) = Finite (3242591731706757 / 36028797018963968)"
proof -
  have "round64 (3242591731706757 / 36028797018963968) = Finite (of_int 6485183463413514 * pow2 (-4 - 52))"
    by (rule round64_posI) (simp_all add: float_eval)
  then show ?thesis by (simp add: fadd_def pow2_def)
qed

lemma add_half_2: "fadd (Finite (3242591731706757 / 36028797018963968)) (Finite (7926335344172073 / 72057594037927936)) = Finite (3602879701896397 / 18014398509481984)"
proof -
  have "round64 (3242591731706757 / 36028797018963968 + 7926335344172073 / 72057594037927936) = Finite (of_int 7205759403792794 * pow2 (-3 - 52))"
    by (rule round64_posI) (simp_all add: float_eval)
  then show ?thesis by (simp add: fadd_def pow2_def)
qed

lemma add_half_3: "fadd (Finite (3602879701896397 / 18014398509481984)) (Finite (7926335344172073 / 72057594037927936)) = Finite (5584463537939415 / 18014398509481984)"
proof -
  have "round64 (3602879701896397 / 18014398509481984 + 7926335344172073 / 72057594037927936) = Finite (of_int 5584463537939415 * pow2 (-2 - 52))"
    by (rule round64_posI) (simp_all add: float_eval)
  then show ?thesis by (simp add: fadd_def pow2_def)
qed

lemma add_half_4: "fadd (Finite (5584463537939415 / 18014398509481984)) (Finite (3602879701896397 / 36028797018963968)) = Finite (3692951694443807 / 9007199254740992)"
proof -
  have "round64 (5584463537939415 / 18014398509481984 + 3602879701896397 / 36028797018963968) = Finite (of_int 7385903388887614 * pow2 (-2 - 52))"
    by (rule round64_posI) (simp_all add: float_eval)
  then show ?thesis by (simp add: fadd_def pow2_def)
qed

lemma add_half_5: "fadd (Finite (3692951694443807 / 9007199254740992)) (Finite (3242591731706757 / 36028797018963968)) = Finite (1 / 2)"
proof -
  have "round64 (3692951694443807 / 9007199254740992 + 3242591731706757 / 36028797018963968) = Finite (of_int 4503599627370496 * pow2 (-1 - 52))"
    by (rule round64_posI) (simp_all add: float_eval)
  then show ?thesis by (simp add: fadd_def pow2_def)
qed

lemma round64_zero: "round64 0 = Finite 0"
  by (simp add: round64_def)

lemma fmul_zero_pos: "0 < w \<Longrightarrow> fmul (Finite 0) (Finite w) = Finite 0"
  by (simp add: fmul_def)

lemma fadd_zero_zero: "fadd (Finite 0) (Finite 0) = Finite 0"
  by (simp add: fadd_def round64_zero)

lemma weighted_sum_all:
  "weighted_sum (all_features v n) =
     fadd (fadd (fadd (fadd (fadd (Finite 0)
       (fmul v (Finite (3242591731706757 / 18014398509481984))))
       (fmul v (Finite (7926335344172073 / 36028797018963968))))
       (fmul v (Finite (7926335344172073 / 36028797018963968))))
       (fmul v (Finite (3602879701896397 / 18014398509481984))))
       (fmul v (Finite (3242591731706757 / 18014398509481984)))"
  by (simp only: weighted_sum_def all_features_def PredictionRequest.select_convs
      lit_018 lit_022 lit_020)

lemma weighted_sum_zero: "weighted_sum (all_features (Finite 0) n) = Finite 0"
  by (simp add: weighted_sum_all fmul_zero_pos fadd_zero_zero)

lemma weighted_sum_one: "weighted_sum (all_features (Finite 1) n) = Finite 1"
  by (simp only: weighted_sum_all
      mul_one_018 mul_one_022 mul_one_020 add_one_1 add_one_2 add_one_3 add_one_4 add_one_5)

lemma weighted_sum_half: "weighted_sum (all_features (Finite (1 / 2)) n) = Finite (1 / 2)"
  by (simp only: weighted_sum_all
      mul_half_018 mul_half_022 mul_half_020 add_half_1 add_half_2 add_half_3 add_half_4 add_half_5)

section \<open>Rounding twice\<close>

text \<open>
  The exponent search meets its specification, and a value that rounding returned is
  returned unchanged when rounded again. So adding a product to \<open>0.0\<close> gives the product
  back, up to the sign of a zero.
\<close>

lemma pow2_powi: "pow2 k = 2 powi k"
  by (simp add: pow2_def power_int_def field_simps)

lemma pow2_pos: "0 < pow2 k"
  by (simp add: pow2_powi)

lemma pow2_add: "pow2 (a + b) = pow2 a * pow2 b"
  by (simp add: pow2_powi power_int_add)

lemma pow2_mono: "a \<le> b \<Longrightarrow> pow2 a \<le> pow2 b"
  by (simp add: pow2_powi power_int_increasing)

lemma pow2_strict_mono: "a < b \<Longrightarrow> pow2 a < pow2 b"
  by (simp add: pow2_powi power_int_strict_increasing)

lemma pow2_52: "pow2 52 = 4503599627370496"
  by (simp add: pow2_def)

lemma pow2_split: "pow2 e = 4503599627370496 * pow2 (e - 52)"
  using pow2_add [of 52 "e - 52"] by (simp add: pow2_52)

lemma pow2_succ: "pow2 (e + 1) = 2 * pow2 e"
  using pow2_add [of 1 e] by (simp add: pow2_def add.commute)

lemma exp_up_spec:
  assumes "k \<le> 1024" "pow2 k \<le> a"
  shows "k \<le> exp_up a k \<and> exp_up a k \<le> 1024 \<and> pow2 (exp_up a k) \<le> a \<and>
         (exp_up a k < 1024 \<longrightarrow> a < pow2 (exp_up a k + 1))"
  using assms
proof (induction a k rule: exp_up.induct)
  case (1 a k)
  show ?case
  proof (cases "1024 \<le> k \<or> a < pow2 (k + 1)")
    case True
    then have "exp_up a k = k" by (simp add: exp_up.simps)
    with 1 True show ?thesis by auto
  next
    case False
    then have e: "exp_up a k = exp_up a (k + 1)"
      by (subst exp_up.simps) simp
    from False have "k + 1 \<le> 1024" "pow2 (k + 1) \<le> a" by auto
    from "1.IH" [OF False this] show ?thesis unfolding e by auto
  qed
qed

lemma exp_down_spec:
  assumes "- 1022 \<le> k" "a < pow2 (k + 1)"
  shows "- 1022 \<le> exp_down a k \<and> exp_down a k \<le> k \<and> a < pow2 (exp_down a k + 1) \<and>
         (- 1022 < exp_down a k \<longrightarrow> pow2 (exp_down a k) \<le> a)"
  using assms
proof (induction a k rule: exp_down.induct)
  case (1 a k)
  show ?case
  proof (cases "k \<le> - 1022 \<or> pow2 k \<le> a")
    case True
    then have "exp_down a k = k" by (simp add: exp_down.simps)
    with 1 True show ?thesis by auto
  next
    case False
    then have e: "exp_down a k = exp_down a (k - 1)"
      by (subst exp_down.simps) simp
    from False have "- 1022 \<le> k - 1" "a < pow2 (k - 1 + 1)" by auto
    from "1.IH" [OF False this] show ?thesis unfolding e by auto
  qed
qed

lemma binade_spec:
  "- 1022 \<le> binade a \<and> binade a \<le> 1024 \<and>
   (- 1022 < binade a \<longrightarrow> pow2 (binade a) \<le> a) \<and>
   (binade a < 1024 \<longrightarrow> a < pow2 (binade a + 1))"
proof (cases "1 \<le> a")
  case True
  then have "pow2 0 \<le> a" by (simp add: pow2_def)
  from exp_up_spec [OF _ this] True show ?thesis by (auto simp: binade_def)
next
  case False
  then have "a < pow2 (0 + 1)" by (simp add: pow2_def)
  from exp_down_spec [OF _ this] False show ?thesis by (auto simp: binade_def)
qed

lemma binade_unique:
  assumes "- 1022 \<le> e" "e \<le> 1024"
    and lo: "- 1022 < e \<Longrightarrow> pow2 e \<le> a"
    and hi: "e < 1024 \<Longrightarrow> a < pow2 (e + 1)"
  shows "binade a = e"
proof (rule ccontr)
  assume ne: "binade a \<noteq> e"
  note b = binade_spec [of a]
  show False
  proof (cases "binade a < e")
    case True
    then have "pow2 e \<le> a" "a < pow2 (binade a + 1)" using lo b assms(2) by auto
    moreover have "pow2 (binade a + 1) \<le> pow2 e" using True by (intro pow2_mono) simp
    ultimately show False by simp
  next
    case False
    with ne have gt: "e < binade a" by simp
    then have "pow2 (binade a) \<le> a" "a < pow2 (e + 1)" using hi b assms(1) by auto
    moreover have "pow2 (e + 1) \<le> pow2 (binade a)" using gt by (intro pow2_mono) simp
    ultimately show False by simp
  qed
qed

lemma round_half_even_of_int: "round_half_even (of_int n) = n"
  by (rule round_half_even_eqI) simp

lemma round_half_even_ge: "of_int n \<le> x \<Longrightarrow> n \<le> round_half_even x"
proof -
  assume "of_int n \<le> x"
  then have "n \<le> \<lfloor>x\<rfloor>" by (simp add: le_floor_iff)
  then show ?thesis by (auto simp: round_half_even_def Let_def)
qed

lemma round_half_even_le: "x \<le> of_int n \<Longrightarrow> round_half_even x \<le> n"
proof (cases "x = of_int n")
  case True
  then show ?thesis by (simp add: round_half_even_of_int)
next
  case False
  assume "x \<le> of_int n"
  with False have "x < of_int n" by simp
  then have "\<lfloor>x\<rfloor> < n" by (simp add: floor_less_iff)
  then show ?thesis by (auto simp: round_half_even_def Let_def)
qed

text \<open>A magnitude that rounding produced is a fixed point of rounding.\<close>

lemma rounded_fixed:
  fixes a :: rat
  defines "u \<equiv> pow2 (binade a - 52)"
  defines "m \<equiv> round_half_even (a / u)"
  assumes pos: "0 < m" and fin: "of_int m * u < pow2 1024"
  shows "of_int (round_half_even (of_int m * u / pow2 (binade (of_int m * u) - 52))) *
           pow2 (binade (of_int m * u) - 52) = of_int m * u"
proof -
  let ?e = "binade a"
  let ?r = "of_int m * u :: rat"
  note b = binade_spec [of a]
  have u0: "0 < u" by (simp add: u_def pow2_pos)
  have pe: "pow2 ?e = 4503599627370496 * u" unfolding u_def by (rule pow2_split)
  have e1024: "?e < 1024"
  proof (rule ccontr)
    assume "\<not> ?e < 1024"
    with b have e: "?e = 1024" and "pow2 ?e \<le> a" by auto
    then have "of_int 4503599627370496 \<le> a / u" using u0 pe by (simp add: field_simps)
    then have "4503599627370496 \<le> m" unfolding m_def by (rule round_half_even_ge)
    then have "(4503599627370496 :: rat) \<le> of_int m" by linarith
    then have "4503599627370496 * u \<le> ?r" using u0 by simp
    with fin pe e show False by simp
  qed
  with b have "a < pow2 (?e + 1)" by simp
  also have "pow2 (?e + 1) = 9007199254740992 * u" using pe by (simp add: pow2_succ)
  finally have "a / u \<le> of_int 9007199254740992" using u0 by (simp add: field_simps)
  then have mhi: "m \<le> 9007199254740992" unfolding m_def by (rule round_half_even_le)
  have mlo: "4503599627370496 \<le> m" if "- 1022 < ?e"
  proof -
    from that b have "pow2 ?e \<le> a" by simp
    then have "of_int 4503599627370496 \<le> a / u" using u0 pe by (simp add: field_simps)
    then show ?thesis unfolding m_def by (rule round_half_even_ge)
  qed
  show ?thesis
  proof (cases "m = 9007199254740992")
    case True
    then have r: "?r = pow2 (?e + 1)" using pe by (simp add: pow2_succ)
    have e1023: "?e + 1 < 1024"
    proof (rule ccontr)
      assume "\<not> ?e + 1 < 1024"
      with e1024 have "?e + 1 = 1024" by simp
      with r fin show False by simp
    qed
    have bin: "binade ?r = ?e + 1"
    proof (rule binade_unique)
      show "- 1022 \<le> ?e + 1" using b by simp
      show "?e + 1 \<le> 1024" using e1023 by simp
      show "pow2 (?e + 1) \<le> ?r" using r by simp
      show "?r < pow2 (?e + 1 + 1)" unfolding r by (rule pow2_strict_mono) simp
    qed
    have u2: "pow2 (?e + 1 - 52) = 2 * u"
      using pow2_succ [of "?e - 52"] by (simp add: u_def algebra_simps)
    have "?r / (2 * u) = of_int 4503599627370496" using u0 True by simp
    then show ?thesis
      unfolding bin u2 using True by (simp only: round_half_even_of_int)
  next
    case False
    with mhi have mlt: "m < 9007199254740992" by simp
    have bin: "binade ?r = ?e"
    proof (rule binade_unique)
      show "- 1022 \<le> ?e" "?e \<le> 1024" using b by simp_all
      show "pow2 ?e \<le> ?r" if "- 1022 < ?e"
      proof -
        have "(4503599627370496 :: rat) \<le> of_int m" using mlo [OF that] by linarith
        then show ?thesis using u0 pe by simp
      qed
      show "?r < pow2 (?e + 1)"
      proof -
        have "(of_int m :: rat) < 9007199254740992" using mlt by linarith
        then show ?thesis using u0 pe by (simp add: pow2_succ)
      qed
    qed
    have "?r / u = of_int m" using u0 by simp
    then show ?thesis
      unfolding bin u_def [symmetric] by (simp only: round_half_even_of_int)
  qed
qed

lemma round64_idem:
  assumes "round64 q = Finite r"
  shows "round64 r = Finite r"
proof (cases "q = 0")
  case True
  with assms show ?thesis by (simp add: round64_def)
next
  case False
  define a where "a = \<bar>q\<bar>"
  define u where "u = pow2 (binade a - 52)"
  define m where "m = round_half_even (a / u)"
  have a0: "0 < a" using False by (simp add: a_def)
  have u0: "0 < u" by (simp add: u_def pow2_pos)
  have m0: "0 \<le> m" unfolding m_def
    by (rule round_half_even_ge) (use u0 a0 in simp)
  have unfolded: "round64 q =
      (if pow2 1024 \<le> of_int m * u then (if q < 0 then NegInf else PosInf)
       else if of_int m * u = 0 then (if q < 0 then NegZero else Finite 0)
       else Finite (if q < 0 then - (of_int m * u) else of_int m * u))"
    using False by (simp add: round64_def Let_def a_def u_def m_def)
  from assms have fin: "of_int m * u < pow2 1024"
    unfolding unfolded by (auto split: if_splits)
  show ?thesis
  proof (cases "m = 0")
    case True
    with assms have "r = 0"
      unfolding unfolded by (auto split: if_splits)
    then show ?thesis by (simp add: round64_def)
  next
    case mnz: False
    with m0 have mpos: "0 < m" by simp
    then have rpos: "0 < of_int m * u" using u0 by simp
    from assms fin rpos have r: "r = (if q < 0 then - (of_int m * u) else of_int m * u)"
      unfolding unfolded by (auto split: if_splits)
    then have ar: "\<bar>r\<bar> = of_int m * u" using rpos by auto
    have rnz: "r \<noteq> 0" using r rpos by auto
    have neg: "r < 0 \<longleftrightarrow> q < 0" using r rpos by auto
    note fx = rounded_fixed [of a, folded u_def, folded m_def, OF mpos fin]
    have "round64 r =
      (let u' = pow2 (binade (of_int m * u) - 52);
           r' = of_int (round_half_even (of_int m * u / u')) * u'
       in if pow2 1024 \<le> r' then (if r < 0 then NegInf else PosInf)
          else if r' = 0 then (if r < 0 then NegZero else Finite 0)
          else Finite (if r < 0 then - r' else r'))"
      using rnz by (simp add: round64_def ar Let_def)
    also have "\<dots> = Finite (if r < 0 then - (of_int m * u) else of_int m * u)"
      unfolding Let_def fx using fin rpos mnz u0 by simp
    also have "\<dots> = Finite r" using r neg by simp
    finally show ?thesis .
  qed
qed

lemma fmul_commute: "fmul x y = fmul y x"
  by (auto simp: fmul_def mult.commute)

lemma fmul_rounded: "fmul x y = Finite v \<Longrightarrow> round64 v = Finite v"
  by (auto simp: fmul_def round64_def [of 0] split: if_splits intro: round64_idem)

lemma fadd_zero_fmul: "same_value (fadd (Finite 0) (fmul x y)) (fmul x y)"
proof (cases "fmul x y")
  case (Finite v)
  then show ?thesis using fmul_rounded [OF Finite] by (simp add: fadd_def same_value_def)
qed (simp_all add: fadd_def same_value_def round64_def)

lemma fadd_same_value: "same_value a b \<Longrightarrow> same_value (fadd a c) (fadd b c)"
  by (cases a; cases b; cases c) (auto simp: same_value_def fadd_def round64_def [of 0])

section \<open>The document store: lookups\<close>

lemma get_documents_one:
  "get_documents coll P (Some 1) = (case filter P coll of [] \<Rightarrow> [] | x # _ \<Rightarrow> [x])"
  unfolding get_documents_def by (cases "filter P coll") simp_all

lemma filter_ConsD: "filter P xs = x # r \<Longrightarrow> x \<in> set xs \<and> P x"
proof -
  assume "filter P xs = x # r"
  then have "x \<in> set (filter P xs)" by simp
  then show ?thesis by simp
qed

lemma get_documents_one_Nil:
  "get_documents coll P (Some 1) = [] \<longleftrightarrow> (\<forall>d\<in>set coll. \<not> P d)"
proof -
  have "get_documents coll P (Some 1) = [] \<longleftrightarrow> filter P coll = []"
    unfolding get_documents_one by (cases "filter P coll") simp_all
  then show ?thesis by (simp add: filter_empty_conv)
qed

lemma get_documents_one_Cons:
  "get_documents coll P (Some 1) = x # r \<Longrightarrow> x \<in> set coll \<and> P x \<and> r = []"
  unfolding get_documents_one by (cases "filter P coll") (auto dest: filter_ConsD)

lemma get_documents_all: "get_documents coll P None = filter P coll"
  by (simp add: get_documents_def)

lemma get_user_by_email_None:
  "get_user_by_email r e s = None \<longleftrightarrow> e \<notin> role_emails r s"
proof (cases "r = ''patient''")
  case True
  have "get_user_by_email r e s = None \<longleftrightarrow>
        get_documents (patient s) (\<lambda>d. Patient.email (snd d) = e) (Some 1) = []"
    using True by (simp add: get_user_by_email_def split: list.split)
  then show ?thesis
    using True unfolding get_documents_one_Nil by (auto simp: role_emails_def)
next
  case False
  have "get_user_by_email r e s = None \<longleftrightarrow>
        get_documents (doctor s) (\<lambda>d. Doctor.email (snd d) = e) (Some 1) = []"
    using False by (simp add: get_user_by_email_def split: list.split)
  then show ?thesis
    using False unfolding get_documents_one_Nil by (auto simp: role_emails_def)
qed

lemma register_cases:
  "register sha256 req user_oid tok sess_oid s =
     (if lower (RegisterRequest.role req) \<noteq> ''patient'' \<and> lower (RegisterRequest.role req) \<noteq> ''doctor''
        then Inl (HTTPException 400 ''Role must be patient or doctor'')
      else if RegisterRequest.email req \<in> role_emails (lower (RegisterRequest.role req)) s
        then Inl (HTTPException 409 ''Email already registered'')
      else case encode (RegisterRequest.password req) of
        None \<Rightarrow> Inl UnicodeEncodeError
      | Some bs \<Rightarrow>
          if lower (RegisterRequest.role req) = ''patient''
          then Inr (\<lparr>AuthResponse.token = tok, role = ''patient'', user_id = user_oid,
                     name = RegisterRequest.name req, email = RegisterRequest.email req\<rparr>,
                    s\<lparr>patient := patient s @ [(user_oid,
                         \<lparr>Patient.name = RegisterRequest.name req, email = RegisterRequest.email req,
                          password_hash = sha256 bs, age = None, gender = None\<rparr>)],
                      session := session s @ [(sess_oid,
                         \<lparr>Session.user_id = user_oid, role = ''patient'', token = tok\<rparr>)]\<rparr>)
          else Inr (\<lparr>AuthResponse.token = tok, role = ''doctor'', user_id = user_oid,
                     name = RegisterRequest.name req, email = RegisterRequest.email req\<rparr>,
                    s\<lparr>doctor := doctor s @ [(user_oid,
                         \<lparr>Doctor.name = RegisterRequest.name req, email = RegisterRequest.email req,
                          password_hash = sha256 bs, specialty = None, hospital = None\<rparr>)],
                      session := session s @ [(sess_oid,
                         \<lparr>Session.user_id = user_oid, role = ''doctor'', token = tok\<rparr>)]\<rparr>))"
  by (simp add: register_def Let_def get_user_by_email_None create_document_def
      create_session_def hash_password_def split: option.split)


lemma login_cases_user:
  "login sha256 req tok sess_oid s =
     (if lower (LoginRequest.role req) \<noteq> ''patient'' \<and> lower (LoginRequest.role req) \<noteq> ''doctor''
        then Inl (HTTPException 400 ''Role must be patient or doctor'')
      else case get_user_by_email (lower (LoginRequest.role req)) (LoginRequest.email req) s of
        None \<Rightarrow> Inl (HTTPException 401 ''Invalid credentials'')
      | Some u \<Rightarrow>
          (case encode (LoginRequest.password req) of
             None \<Rightarrow> Inl UnicodeEncodeError
           | Some bs \<Rightarrow>
               if sha256 bs \<noteq> user_get_password_hash u
                 then Inl (HTTPException 401 ''Invalid credentials'')
               else Inr (\<lparr>AuthResponse.token = tok, role = lower (LoginRequest.role req),
                          user_id = user_get_id u, name = user_get_name u,
                          email = user_get_email u\<rparr>,
                         s\<lparr>session := session s @ [(sess_oid,
                              \<lparr>Session.user_id = user_get_id u,
                               role = lower (LoginRequest.role req), token = tok\<rparr>)]\<rparr>)))"
  by (simp add: login_def Let_def create_document_def create_session_def verify_password_def
      split: option.split)

lemma find_filter: "find P xs = (case filter P xs of [] \<Rightarrow> None | x # _ \<Rightarrow> Some x)"
  by (induction xs) auto

lemma found_user_eq:
  "found_user r e s =
     (case get_user_by_email r e s of
        None \<Rightarrow> None
      | Some u \<Rightarrow> Some (user_get_id u, user_get_name u, user_get_email u,
                       user_get_password_hash u))"
proof (cases "r = ''patient''")
  case True
  then show ?thesis
    unfolding found_user_def role_users_def get_user_by_email_def get_documents_one find_filter
    by (simp add: filter_map comp_def split: list.split)
next
  case False
  then show ?thesis
    unfolding found_user_def role_users_def get_user_by_email_def get_documents_one find_filter
    by (simp add: filter_map comp_def split: list.split)
qed


lemma found_user_None: "found_user r e s = None \<longleftrightarrow> e \<notin> role_emails r s"
  using get_user_by_email_None [of r e s]
  by (cases "get_user_by_email r e s") (auto simp: found_user_eq)

lemma login_cases:
  "login sha256 req tok sess_oid s =
     (if lower (LoginRequest.role req) \<noteq> ''patient'' \<and> lower (LoginRequest.role req) \<noteq> ''doctor''
        then Inl (HTTPException 400 ''Role must be patient or doctor'')
      else case found_user (lower (LoginRequest.role req)) (LoginRequest.email req) s of
        None \<Rightarrow> Inl (HTTPException 401 ''Invalid credentials'')
      | Some (i, n, e, h) \<Rightarrow>
          (case encode (LoginRequest.password req) of
             None \<Rightarrow> Inl UnicodeEncodeError
           | Some bs \<Rightarrow>
               if sha256 bs \<noteq> h then Inl (HTTPException 401 ''Invalid credentials'')
               else Inr (\<lparr>AuthResponse.token = tok, role = lower (LoginRequest.role req),
                          user_id = i, name = n, email = e\<rparr>,
                         s\<lparr>session := session s @ [(sess_oid,
                              \<lparr>Session.user_id = i, role = lower (LoginRequest.role req),
                               token = tok\<rparr>)]\<rparr>)))"
  by (simp add: login_cases_user found_user_eq split: option.split)

text \<open>
  A password that cannot be encoded: once the role is accepted and the address passes its
  check, the exception of \<open>password.encode()\<close> ends the call.
\<close>

lemma encode_surrogate: "encode [55296] = None"
  by simp

lemma register_unencodable:
  assumes "lower (RegisterRequest.role req) \<in> {''patient'', ''doctor''}"
    and "RegisterRequest.email req \<notin> role_emails (lower (RegisterRequest.role req)) s"
    and "encode (RegisterRequest.password req) = None"
  shows "register sha256 req user_oid tok sess_oid s = Inl UnicodeEncodeError"
  using assms by (auto simp: register_cases)

lemma login_unencodable:
  assumes "lower (LoginRequest.role req) \<in> {''patient'', ''doctor''}"
    and "LoginRequest.email req \<in> role_emails (lower (LoginRequest.role req)) s"
    and "encode (LoginRequest.password req) = None"
  shows "login sha256 req tok sess_oid s = Inl UnicodeEncodeError"
proof -
  from assms(2) obtain u where
    "found_user (lower (LoginRequest.role req)) (LoginRequest.email req) s = Some u"
    using found_user_None [of "lower (LoginRequest.role req)" "LoginRequest.email req" s] by auto
  with assms(1,3) show ?thesis by (cases u) (auto simp: login_cases)
qed

lemma resolve_session_Some:
  "resolve_session tok s = Some sess \<Longrightarrow>
     \<exists>i. (i, sess) \<in> set (session s) \<and> Session.token sess = tok"
  unfolding resolve_session_def get_documents_one
  by (cases "filter (\<lambda>d. Session.token (snd d) = tok) (session s)")
     (auto dest!: filter_ConsD)

lemma resolve_session_None:
  "resolve_session tok s = None \<longleftrightarrow> tok \<notin> (\<lambda>d. Session.token (snd d)) ` set (session s)"
proof -
  have "resolve_session tok s = None \<longleftrightarrow>
        get_documents (session s) (\<lambda>d. Session.token (snd d) = tok) (Some 1) = []"
    by (simp add: resolve_session_def split: list.split)
  then show ?thesis unfolding get_documents_one_Nil by auto
qed

lemma patient_assessments_cases:
  "patient_assessments tok s =
     (case resolve_session tok s of
        None \<Rightarrow> Inl (HTTPException 401 ''Unauthorized'')
      | Some sess \<Rightarrow>
          if Session.role sess = ''patient''
          then Inr (filter (\<lambda>d. Assessment.patient_id (snd d) = Session.user_id sess) (assessment s))
          else Inl (HTTPException 401 ''Unauthorized''))"
  by (simp add: patient_assessments_def resolve_session_def get_documents_all split: list.split)

lemma doctor_feedback_cases:
  "doctor_feedback req tok oid s =
     (case resolve_session tok s of
        None \<Rightarrow> Inl (HTTPException 401 ''Unauthorized'')
      | Some sess \<Rightarrow>
          if Session.role sess = ''doctor''
          then Inr (oid, s\<lparr>feedback := feedback s @ [(oid,
                 \<lparr>Feedback.doctor_id = Session.user_id sess,
                  assessment_id = FeedbackRequest.assessment_id req,
                  message = FeedbackRequest.message req,
                  severity = FeedbackRequest.severity req,
                  recommendations = Some (case FeedbackRequest.recommendations req of
                                            None \<Rightarrow> [] | Some rs \<Rightarrow> rs)\<rparr>)]\<rparr>)
          else Inl (HTTPException 401 ''Unauthorized''))"
  by (simp add: doctor_feedback_def resolve_session_def create_document_def split: list.split)

lemma ex_sessions: "session ex_assessments =
   [(''s1'', \<lparr>Session.user_id = ''d1'', role = ''doctor'', token = ''tok-d1''\<rparr>),
    (''s2'', \<lparr>Session.user_id = ''p1'', role = ''patient'', token = ''tok-p1''\<rparr>)]"
  by (simp add: ex_assessments_def ex_store_registered_def)

lemma ex_resolve:
  "resolve_session ''tok-p1'' ex_assessments =
      Some \<lparr>Session.user_id = ''p1'', role = ''patient'', token = ''tok-p1''\<rparr>"
  "resolve_session ''tok-d1'' ex_assessments =
      Some \<lparr>Session.user_id = ''d1'', role = ''doctor'', token = ''tok-d1''\<rparr>"
  "resolve_session ''tok-none'' ex_assessments = None"
  by (simp_all add: resolve_session_def get_documents_def ex_sessions)

lemma ex_assessment_list: "assessment ex_assessments =
     [(''a1'', \<lparr>Assessment.patient_id = ''p1'', features = [], score = Finite 0,
               probability = Finite 0, result_label = ''Low Risk'', notes = Some [],
               reviewed_by = None, feedback_id = None\<rparr>),
      (''a2'', \<lparr>Assessment.patient_id = ''p2'', features = [], score = Finite 1,
               probability = Finite 1, result_label = ''High Risk'', notes = Some [],
               reviewed_by = None, feedback_id = None\<rparr>),
      (''a3'', \<lparr>Assessment.patient_id = ''unknown'', features = [], score = Finite 1,
               probability = Finite 1, result_label = ''High Risk'', notes = Some [],
               reviewed_by = None, feedback_id = None\<rparr>)]"
  by (simp add: ex_assessments_def)

section \<open>Scoring and recording\<close>

lemma weighted_total_weights:
  "weighted_total req weights (Finite 0) = Some (weighted_sum req)"
  by (simp add: weights_def getattr_def weighted_sum_def)

lemma scoring_eq: "scoring req = Some (clamp01 (weighted_sum req), risk_label (clamp01 (weighted_sum req)))"
  by (simp add: scoring_def weighted_total_weights clamp01_def Let_def)

lemma clamp01_cases:
  "clamp01 x = (if x = NaN then Finite 1 else if flt x (Finite 0) then Finite 0
                else if flt (Finite 1) x then Finite 1
                else if is_zero x then Finite 0 else x)"
  by (cases x) (auto simp: clamp01_def py_max_def py_min_def flt_def)

lemma clamp01_range: "fle (Finite 0) (clamp01 x) \<and> fle (clamp01 x) (Finite 1)"
  by (cases x) (auto simp: clamp01_def py_max_def py_min_def flt_def fle_def)

lemma clamp01_Finite: "\<exists>q. clamp01 x = Finite q \<and> 0 \<le> q \<and> q \<le> 1"
  by (cases x) (auto simp: clamp01_def py_max_def py_min_def flt_def)

lemma resolve_pid_eq:
  "(if truthy (resolve_pid tok uid s) then the (resolve_pid tok uid s) else ''unknown'') =
     recorded_patient tok uid s"
  by (cases tok; cases uid)
     (auto simp: resolve_pid_def recorded_patient_def truthy_def resolve_session_def
       split: list.splits option.splits)

lemma predict_cases:
  "predict req tok uid oid s =
     (if \<not> truthy tok \<and> \<not> truthy uid
        then Inl (HTTPException 401 ''Authentication required'')
      else Inr (\<lparr>PredictResponse.assessment_id = oid,
                  probability = clamp01 (weighted_sum req),
                  label = risk_label (clamp01 (weighted_sum req))\<rparr>,
                s\<lparr>assessment := assessment s @ [(oid,
                   \<lparr>Assessment.patient_id = recorded_patient tok uid s,
                    features =
                      [(''eye_contact'', eye_contact req),
                       (''speech_delay'', speech_delay req),
                       (''repetitive_behavior'', repetitive_behavior req),
                       (''sensory_sensitivity'', sensory_sensitivity req),
                       (''social_interaction_difficulty'', social_interaction_difficulty req)],
                    score = clamp01 (weighted_sum req),
                    probability = clamp01 (weighted_sum req),
                    result_label = risk_label (clamp01 (weighted_sum req)),
                    notes = Some (if truthy (PredictionRequest.notes req)
                                  then the (PredictionRequest.notes req) else []),
                    reviewed_by = None, feedback_id = None\<rparr>)]\<rparr>))"
  using clamp01_range [of "weighted_sum req"]
  by (simp add: predict_def scoring_eq Let_def Assessment_valid_def create_document_def
      resolve_pid_eq)

lemma clamp01_unit: "0 \<le> q \<Longrightarrow> q \<le> 1 \<Longrightarrow> clamp01 (Finite q) = Finite q"
  by (auto simp: clamp01_def py_max_def py_min_def flt_def)

lemma risk_label_Finite:
  "risk_label (Finite q) =
     (if q < 5944751508129055 / 18014398509481984 then ''Low Risk''
      else if q < 5944751508129055 / 9007199254740992 then ''Moderate Risk''
      else ''High Risk'')"
  unfolding risk_label_def lit_033 lit_066 by (simp add: flt_def)

lemma scoring_examples:
  "scoring (all_features (Finite 1) n) = Some (Finite 1, ''High Risk'')"
  "scoring (all_features (Finite 0) n) = Some (Finite 0, ''Low Risk'')"
  "scoring (all_features (Finite (1 / 2)) n) = Some (Finite (1 / 2), ''Moderate Risk'')"
  by (simp_all add: scoring_eq weighted_sum_one weighted_sum_zero weighted_sum_half
      clamp01_unit risk_label_Finite)

lemma predict_response:
  "truthy tok \<or> truthy uid \<Longrightarrow>
     \<exists>s'. predict req tok uid oid s =
       Inr (\<lparr>PredictResponse.assessment_id = oid, probability = clamp01 (weighted_sum req),
              label = risk_label (clamp01 (weighted_sum req))\<rparr>, s')"
  by (auto simp: predict_cases)

lemma predict_persists:
  "truthy tok \<or> truthy uid \<Longrightarrow>
     \<exists>resp a. predict req tok uid oid s = Inr (resp, s\<lparr>assessment := assessment s @ [(oid, a)]\<rparr>) \<and>
       Assessment.patient_id a = recorded_patient tok uid s"
  by (auto simp: predict_cases)

lemma risk_label_partition:
  assumes "p = Finite q"
  shows "(risk_label p = ''Low Risk'' \<longleftrightarrow> flt p (round64 (33 / 100))) \<and>
         (risk_label p = ''Moderate Risk'' \<longleftrightarrow>
            fle (round64 (33 / 100)) p \<and> flt p (round64 (66 / 100))) \<and>
         (risk_label p = ''High Risk'' \<longleftrightarrow> fle (round64 (66 / 100)) p)"
  unfolding risk_label_def lit_033 lit_066 assms
  by (auto simp: flt_def fle_def)

lemma clamp01_same_value: "same_value a b \<Longrightarrow> clamp01 a = clamp01 b"
  by (cases a; cases b) (auto simp: same_value_def clamp01_def py_max_def py_min_def flt_def)

lemma clamp01_weighted_sum: "clamp01 (weighted_sum req) = clamp01 (spec_weighted_sum req)"
  unfolding weighted_sum_def spec_weighted_sum_def
    fmul_commute [of "round64 (18 / 100)"] fmul_commute [of "round64 (22 / 100)"]
    fmul_commute [of "round64 (2 / 10)"]
  by (intro clamp01_same_value fadd_same_value fadd_zero_fmul)

section \<open>Stored identifiers stay non-empty\<close>

text \<open>
  The empty store has no empty identifier, and no operation introduces one as long as
  the store assigns non-empty identifiers to users: sessions take their \<open>user_id\<close> from a
  user document.
\<close>

lemma ids_nonempty_empty_store: "ids_nonempty empty_store"
  by (simp add: ids_nonempty_def empty_store_def)

lemma get_user_by_email_id:
  assumes "get_user_by_email r e s = Some u" and "ids_nonempty s"
  shows "user_get_id u \<noteq> []"
proof (cases "r = ''patient''")
  case True
  with assms(1) obtain d rest where
    "get_documents (patient s) (\<lambda>d. Patient.email (snd d) = e) (Some 1) = d # rest" "u = PatientDoc d"
    by (auto simp: get_user_by_email_def split: list.splits)
  then have "d \<in> set (patient s)" "user_get_id u = fst d"
    using get_documents_one_Cons by fastforce+
  with assms(2) show ?thesis by (simp add: ids_nonempty_def)
next
  case False
  with assms(1) obtain d rest where
    "get_documents (doctor s) (\<lambda>d. Doctor.email (snd d) = e) (Some 1) = d # rest" "u = DoctorDoc d"
    by (auto simp: get_user_by_email_def split: list.splits)
  then have "d \<in> set (doctor s)" "user_get_id u = fst d"
    using get_documents_one_Cons by fastforce+
  with assms(2) show ?thesis by (simp add: ids_nonempty_def)
qed

lemma register_ids_nonempty:
  assumes "register sha256 req user_oid tok sess_oid s = Inr (resp, s')"
    and "ids_nonempty s" and "user_oid \<noteq> []"
  shows "ids_nonempty s'"
  using assms unfolding register_cases
  by (auto simp: ids_nonempty_def split: if_splits option.splits)

lemma login_ids_nonempty:
  assumes "login sha256 req tok sess_oid s = Inr (resp, s')" and "ids_nonempty s"
  shows "ids_nonempty s'"
proof -
  from assms(1) obtain u where
    u: "get_user_by_email (lower (LoginRequest.role req)) (LoginRequest.email req) s = Some u"
    and s': "s' = s\<lparr>session := session s @ [(sess_oid,
               \<lparr>Session.user_id = user_get_id u, role = lower (LoginRequest.role req),
                token = tok\<rparr>)]\<rparr>"
    unfolding login_cases_user by (auto split: if_splits option.splits)
  from get_user_by_email_id [OF u assms(2)] assms(2) show ?thesis
    unfolding s' by (auto simp: ids_nonempty_def)
qed

lemma predict_ids_nonempty:
  assumes "predict req tok uid oid s = Inr (resp, s')" and "ids_nonempty s"
  shows "ids_nonempty s'"
  using assms unfolding predict_cases by (auto simp: ids_nonempty_def split: if_splits)

lemma doctor_feedback_ids_nonempty:
  assumes "doctor_feedback req tok oid s = Inr (fid, s')" and "ids_nonempty s"
  shows "ids_nonempty s'"
  using assms unfolding doctor_feedback_cases
  by (auto simp: ids_nonempty_def split: if_splits option.splits)

section \<open>Registration\<close>

text \<open>
  C3, as the code has it. The role is lower-cased before it is checked, so the test is on
  \<open>lower role\<close>: registration fails with 400 when the lower-cased role is neither
  \<open>patient\<close> nor \<open>doctor\<close>, and fails with 409 when the address is already in the
  collection of that role. When it is not, and the password can be encoded, the
  registration succeeds under the identifier the store assigns, whatever the collection
  of the other role holds: so also for an address registered under the opposite role.
\<close>

theorem register_role_then_conflict:
  "(lower (RegisterRequest.role req) \<notin> {''patient'', ''doctor''} \<longrightarrow>
      register sha256 req user_oid tok sess_oid s =
        Inl (HTTPException 400 ''Role must be patient or doctor'')) \<and>
   (lower (RegisterRequest.role req) \<in> {''patient'', ''doctor''} \<and>
    RegisterRequest.email req \<in> role_emails (lower (RegisterRequest.role req)) s \<longrightarrow>
      register sha256 req user_oid tok sess_oid s =
        Inl (HTTPException 409 ''Email already registered'')) \<and>
   (lower (RegisterRequest.role req) \<in> {''patient'', ''doctor''} \<and>
    RegisterRequest.email req \<notin> role_emails (lower (RegisterRequest.role req)) s \<and>
    encode (RegisterRequest.password req) \<noteq> None \<longrightarrow>
      (\<exists>s'. register sha256 req user_oid tok sess_oid s =
         Inr (\<lparr>AuthResponse.token = tok, role = lower (RegisterRequest.role req),
                user_id = user_oid, name = RegisterRequest.name req,
                email = RegisterRequest.email req\<rparr>, s')))"
proof (intro conjI impI)
  assume "lower (RegisterRequest.role req) \<notin> {''patient'', ''doctor''}"
  then show "register sha256 req user_oid tok sess_oid s =
      Inl (HTTPException 400 ''Role must be patient or doctor'')"
    by (simp add: register_cases)
next
  assume "lower (RegisterRequest.role req) \<in> {''patient'', ''doctor''} \<and>
    RegisterRequest.email req \<in> role_emails (lower (RegisterRequest.role req)) s"
  then show "register sha256 req user_oid tok sess_oid s =
      Inl (HTTPException 409 ''Email already registered'')"
    by (auto simp: register_cases)
next
  assume ok: "lower (RegisterRequest.role req) \<in> {''patient'', ''doctor''} \<and>
    RegisterRequest.email req \<notin> role_emails (lower (RegisterRequest.role req)) s \<and>
    encode (RegisterRequest.password req) \<noteq> None"
  then obtain bs where bs: "encode (RegisterRequest.password req) = Some bs" by auto
  show "\<exists>s'. register sha256 req user_oid tok sess_oid s =
         Inr (\<lparr>AuthResponse.token = tok, role = lower (RegisterRequest.role req),
                user_id = user_oid, name = RegisterRequest.name req,
                email = RegisterRequest.email req\<rparr>, s')"
  proof (cases "lower (RegisterRequest.role req) = ''patient''")
    case True
    with ok bs show ?thesis by (simp add: register_cases)
  next
    case False
    with ok bs show ?thesis by (auto simp: register_cases)
  qed
qed

theorem register_role_then_conflict_witness:
  "register ex_digest (ex_user\<lparr>RegisterRequest.role := ''admin''\<rparr>) ''p1'' ''tok-p1'' ''s2'' ex_store =
     Inl (HTTPException 400 ''Role must be patient or doctor'') \<and>
   register ex_digest (ex_user\<lparr>RegisterRequest.role := ''DOCTOR''\<rparr>) ''p1'' ''tok-p1'' ''s2'' ex_store =
     Inl (HTTPException 409 ''Email already registered'') \<and>
   ''ann@example.org'' \<in> role_emails ''doctor'' ex_store \<and>
   (\<exists>s'. register ex_digest ex_user ''p1'' ''tok-p1'' ''s2'' ex_store =
      Inr (\<lparr>AuthResponse.token = ''tok-p1'', role = ''patient'', user_id = ''p1'',
             name = ''Ann'', email = ''ann@example.org''\<rparr>, s'))"
proof -
  have l: "lower ''admin'' = ''admin''" "lower ''DOCTOR'' = ''doctor''" "lower ''Patient'' = ''patient''"
    by (simp_all add: lower_def lower_char_def)
  have e: "role_emails ''doctor'' ex_store = {''ann@example.org''}"
    "role_emails ''patient'' ex_store = {}"
    by (simp_all add: role_emails_def ex_store_def)
  have c: "encode [115, 101, 99, 114, 101, 116] = Some [115, 101, 99, 114, 101, 116]"
    by (simp add: utf8_def)
  have 1: "register ex_digest (ex_user\<lparr>RegisterRequest.role := ''admin''\<rparr>) ''p1'' ''tok-p1'' ''s2'' ex_store =
     Inl (HTTPException 400 ''Role must be patient or doctor'')"
    using register_role_then_conflict [of "ex_user\<lparr>RegisterRequest.role := ''admin''\<rparr>" ex_digest "''p1''" "''tok-p1''"
        "''s2''" ex_store, THEN conjunct1]
    by (simp add: ex_user_def l)
  have 2: "register ex_digest (ex_user\<lparr>RegisterRequest.role := ''DOCTOR''\<rparr>) ''p1'' ''tok-p1'' ''s2'' ex_store =
     Inl (HTTPException 409 ''Email already registered'')"
    using register_role_then_conflict [of "ex_user\<lparr>RegisterRequest.role := ''DOCTOR''\<rparr>" ex_digest "''p1''" "''tok-p1''"
        "''s2''" ex_store, THEN conjunct2, THEN conjunct1]
    by (simp add: ex_user_def l e)
  have 3: "\<exists>s'. register ex_digest ex_user ''p1'' ''tok-p1'' ''s2'' ex_store =
      Inr (\<lparr>AuthResponse.token = ''tok-p1'', role = ''patient'', user_id = ''p1'',
             name = ''Ann'', email = ''ann@example.org''\<rparr>, s')"
    using register_role_then_conflict [of ex_user ex_digest "''p1''" "''tok-p1''"
        "''s2''" ex_store, THEN conjunct2, THEN conjunct2]
    by (simp add: ex_user_def l e c)
  from 1 2 3 e show ?thesis by simp
qed

text \<open>
  C3 as stated, on the role of the request itself, fails: the role \<open>Patient\<close> is not one of
  the two words, and the registration succeeds as a patient.
\<close>

theorem register_role_literal_counterexample:
  "RegisterRequest.role ex_user \<notin> {''patient'', ''doctor''} \<and>
   register ex_digest ex_user ''p1'' ''tok-p1'' ''s2'' empty_store =
     Inr (\<lparr>AuthResponse.token = ''tok-p1'', role = ''patient'', user_id = ''p1'',
            name = ''Ann'', email = ''ann@example.org''\<rparr>,
          \<lparr>patient = [(''p1'', \<lparr>Patient.name = ''Ann'', email = ''ann@example.org'',
                           password_hash = ''010111'', age = None, gender = None\<rparr>)],
           doctor = [], assessment = [], feedback = [],
           session = [(''s2'', \<lparr>Session.user_id = ''p1'', role = ''patient'', token = ''tok-p1''\<rparr>)]\<rparr>)"
  by (simp add: register_cases ex_user_def empty_store_def lower_def lower_char_def role_emails_def
      utf8_def ex_digest_def)

text \<open>
  C4: after a successful registration whose token no stored session carries yet, looking
  the returned token up in the session collection gives exactly one session, the one
  with the user id and the role of the response; that user id is the identifier of the
  user document the registration appended to the collection of that role.
\<close>

theorem register_token_round_trip:
  assumes "register sha256 req user_oid tok sess_oid s = Inr (resp, s')"
    and "tok \<notin> (\<lambda>d. Session.token (snd d)) ` set (session s)"
  shows "get_documents (session s') (\<lambda>d. Session.token (snd d) = AuthResponse.token resp) (Some 1) =
           [(sess_oid, \<lparr>Session.user_id = AuthResponse.user_id resp,
                         role = AuthResponse.role resp, token = AuthResponse.token resp\<rparr>)] \<and>
         filter (\<lambda>d. Session.token (snd d) = AuthResponse.token resp) (session s') =
           [(sess_oid, \<lparr>Session.user_id = AuthResponse.user_id resp,
                         role = AuthResponse.role resp, token = AuthResponse.token resp\<rparr>)] \<and>
         AuthResponse.role resp = lower (RegisterRequest.role req) \<and>
         (if AuthResponse.role resp = ''patient''
          then \<exists>p. patient s' = patient s @ [(AuthResponse.user_id resp, p)] \<and>
                   Patient.email p = RegisterRequest.email req
          else AuthResponse.role resp = ''doctor'' \<and>
               (\<exists>p. doctor s' = doctor s @ [(AuthResponse.user_id resp, p)] \<and>
                   Doctor.email p = RegisterRequest.email req))"
proof -
  have old: "filter (\<lambda>d. Session.token (snd d) = tok) (session s) = []"
    using assms(2) by (auto simp: filter_empty_conv)
  show ?thesis
    using assms(1) old unfolding register_cases get_documents_one
    by (auto split: if_splits option.splits)
qed

theorem register_token_round_trip_witness:
  "register ex_digest ex_user ''p1'' ''tok-p1'' ''s2'' ex_store = Inr (ex_resp, ex_store_registered) \<and>
   ''tok-p1'' \<notin> (\<lambda>d. Session.token (snd d)) ` set (session ex_store) \<and>
   get_documents (session ex_store_registered) (\<lambda>d. Session.token (snd d) = ''tok-p1'') (Some 1) =
     [(''s2'', \<lparr>Session.user_id = ''p1'', role = ''patient'', token = ''tok-p1''\<rparr>)]"
proof -
  have ok: "register ex_digest ex_user ''p1'' ''tok-p1'' ''s2'' ex_store = Inr (ex_resp, ex_store_registered)"
    by (simp add: register_cases ex_user_def ex_store_def ex_resp_def ex_store_registered_def
        lower_def lower_char_def role_emails_def utf8_def ex_digest_def)
  have fresh: "''tok-p1'' \<notin> (\<lambda>d. Session.token (snd d)) ` set (session ex_store)"
    by (simp add: ex_store_def)
  show ?thesis
    using register_token_round_trip [OF ok fresh] ok fresh by (simp add: ex_resp_def)
qed

section \<open>Login\<close>



section \<open>The role-gated endpoints\<close>

text \<open>
  C8: \<open>patient_assessments\<close> fails, and then with 401, exactly when the token does not
  resolve to a session of role \<open>patient\<close>. When it does, the result is the list of the
  assessment documents whose \<open>patient_id\<close> is the \<open>user_id\<close> of that session: a document is
  in the result exactly when it is stored and has that \<open>patient_id\<close>, so none of another
  patient, and none recorded as \<open>unknown\<close>, appears for a session of a stored user.
\<close>

theorem patient_assessments_only_own:
  "(patient_assessments tok s = Inl (HTTPException 401 ''Unauthorized'') \<longleftrightarrow>
      \<not> (\<exists>sess. resolve_session tok s = Some sess \<and> Session.role sess = ''patient'')) \<and>
   (\<forall>e. patient_assessments tok s = Inl e \<longrightarrow> e = HTTPException 401 ''Unauthorized'') \<and>
   (\<forall>sess. resolve_session tok s = Some sess \<and> Session.role sess = ''patient'' \<longrightarrow>
      (\<exists>items. patient_assessments tok s = Inr items \<and>
         items = filter (\<lambda>d. Assessment.patient_id (snd d) = Session.user_id sess) (assessment s) \<and>
         (\<forall>d. d \<in> set items \<longleftrightarrow>
              d \<in> set (assessment s) \<and> Assessment.patient_id (snd d) = Session.user_id sess)))"
proof (cases "resolve_session tok s")
  case None
  then show ?thesis by (simp add: patient_assessments_cases)
next
  case (Some sess)
  show ?thesis
  proof (cases "Session.role sess = ''patient''")
    case True
    with Some have "patient_assessments tok s =
        Inr (filter (\<lambda>d. Assessment.patient_id (snd d) = Session.user_id sess) (assessment s))"
      by (simp add: patient_assessments_cases)
    with Some True show ?thesis by auto
  next
    case False
    with Some have "patient_assessments tok s = Inl (HTTPException 401 ''Unauthorized'')"
      by (simp add: patient_assessments_cases)
    with Some False show ?thesis by auto
  qed
qed

theorem patient_assessments_only_own_witness:
  "patient_assessments ''tok-p1'' ex_assessments =
     Inr [(''a1'', \<lparr>Assessment.patient_id = ''p1'', features = [], score = Finite 0,
               probability = Finite 0, result_label = ''Low Risk'', notes = Some [],
               reviewed_by = None, feedback_id = None\<rparr>)] \<and>
   patient_assessments ''tok-d1'' ex_assessments = Inl (HTTPException 401 ''Unauthorized'') \<and>
   patient_assessments ''tok-none'' ex_assessments = Inl (HTTPException 401 ''Unauthorized'')"
proof -
  note own = patient_assessments_only_own [of "''tok-p1''" ex_assessments,
      THEN conjunct2, THEN conjunct2, rule_format,
      of "\<lparr>Session.user_id = ''p1'', role = ''patient'', token = ''tok-p1''\<rparr>"]
  have "\<exists>items. patient_assessments ''tok-p1'' ex_assessments = Inr items \<and>
      items = filter (\<lambda>d. Assessment.patient_id (snd d) = ''p1'') (assessment ex_assessments)"
    using own by (simp add: ex_resolve)
  then have 1: "patient_assessments ''tok-p1'' ex_assessments =
     Inr [(''a1'', \<lparr>Assessment.patient_id = ''p1'', features = [], score = Finite 0,
               probability = Finite 0, result_label = ''Low Risk'', notes = Some [],
               reviewed_by = None, feedback_id = None\<rparr>)]"
    by (simp add: ex_assessment_list)
  have 2: "patient_assessments ''tok-d1'' ex_assessments = Inl (HTTPException 401 ''Unauthorized'')"
    using patient_assessments_only_own [of "''tok-d1''" ex_assessments, THEN conjunct1]
    by (simp add: ex_resolve)
  have 3: "patient_assessments ''tok-none'' ex_assessments = Inl (HTTPException 401 ''Unauthorized'')"
    using patient_assessments_only_own [of "''tok-none''" ex_assessments, THEN conjunct1]
    by (simp add: ex_resolve)
  from 1 2 3 show ?thesis by blast
qed


text \<open>
  C9: \<open>doctor_feedback\<close> fails, and then with 401, exactly when the token does not resolve
  to a session of role \<open>doctor\<close>. When it does, it succeeds for every request: it appends
  one feedback document of that doctor with the \<open>assessment_id\<close> of the request and
  returns its identifier; the assessment collection is never consulted.
\<close>

theorem doctor_feedback_no_existence_check:
  "(doctor_feedback req tok oid s = Inl (HTTPException 401 ''Unauthorized'') \<longleftrightarrow>
      \<not> (\<exists>sess. resolve_session tok s = Some sess \<and> Session.role sess = ''doctor'')) \<and>
   (\<forall>e. doctor_feedback req tok oid s = Inl e \<longrightarrow> e = HTTPException 401 ''Unauthorized'') \<and>
   (\<forall>sess. resolve_session tok s = Some sess \<and> Session.role sess = ''doctor'' \<longrightarrow>
      (\<exists>fb. doctor_feedback req tok oid s = Inr (oid, s\<lparr>feedback := feedback s @ [(oid, fb)]\<rparr>) \<and>
         Feedback.doctor_id fb = Session.user_id sess \<and>
         Feedback.assessment_id fb = FeedbackRequest.assessment_id req \<and>
         Feedback.message fb = FeedbackRequest.message req))"
proof (cases "resolve_session tok s")
  case None
  then show ?thesis by (simp add: doctor_feedback_cases)
next
  case (Some sess)
  show ?thesis
  proof (cases "Session.role sess = ''doctor''")
    case True
    with Some show ?thesis by (auto simp: doctor_feedback_cases)
  next
    case False
    with Some have "doctor_feedback req tok oid s = Inl (HTTPException 401 ''Unauthorized'')"
      by (simp add: doctor_feedback_cases)
    with Some False show ?thesis by auto
  qed
qed


theorem doctor_feedback_no_existence_check_witness:
  "FeedbackRequest.assessment_id ex_feedback \<notin> fst ` set (assessment ex_assessments) \<and>
   (\<exists>fb. doctor_feedback ex_feedback ''tok-d1'' ''f1'' ex_assessments =
      Inr (''f1'', ex_assessments\<lparr>feedback := feedback ex_assessments @ [(''f1'', fb)]\<rparr>) \<and>
      Feedback.assessment_id fb = ''no-such-assessment'') \<and>
   doctor_feedback ex_feedback ''tok-p1'' ''f1'' ex_assessments = Inl (HTTPException 401 ''Unauthorized'')"
proof -
  note ok = doctor_feedback_no_existence_check [of ex_feedback "''tok-d1''" "''f1''" ex_assessments,
      THEN conjunct2, THEN conjunct2, rule_format,
      of "\<lparr>Session.user_id = ''d1'', role = ''doctor'', token = ''tok-d1''\<rparr>"]
  have 0: "FeedbackRequest.assessment_id ex_feedback \<notin> fst ` set (assessment ex_assessments)"
    by (simp add: ex_feedback_def ex_assessment_list)
  have "\<exists>fb. doctor_feedback ex_feedback ''tok-d1'' ''f1'' ex_assessments =
      Inr (''f1'', ex_assessments\<lparr>feedback := feedback ex_assessments @ [(''f1'', fb)]\<rparr>) \<and>
      Feedback.doctor_id fb = Session.user_id \<lparr>Session.user_id = ''d1'', role = ''doctor'', token = ''tok-d1''\<rparr> \<and>
      Feedback.assessment_id fb = FeedbackRequest.assessment_id ex_feedback \<and>
      Feedback.message fb = FeedbackRequest.message ex_feedback"
    by (rule ok) (simp add: ex_resolve)
  then have 1: "\<exists>fb. doctor_feedback ex_feedback ''tok-d1'' ''f1'' ex_assessments =
      Inr (''f1'', ex_assessments\<lparr>feedback := feedback ex_assessments @ [(''f1'', fb)]\<rparr>) \<and>
      Feedback.assessment_id fb = ''no-such-assessment''"
    by (auto simp: ex_feedback_def)
  have 2: "doctor_feedback ex_feedback ''tok-p1'' ''f1'' ex_assessments = Inl (HTTPException 401 ''Unauthorized'')"
    using doctor_feedback_no_existence_check [of ex_feedback "''tok-p1''" "''f1''" ex_assessments, THEN conjunct1]
    by (simp add: ex_resolve)
  from 0 1 2 show ?thesis by blast
qed

section \<open>The risk score\<close>

text \<open>
  C1: for every questionnaire the probability that the scoring computes, and that
  \<open>predict\<close> returns whenever a token or a user id lets the call through, is
  \<open>max(0.0, min(1.0, total))\<close> for the total the specification writes:
  \<open>0.18 * eye_contact + 0.22 * speech_delay + 0.22 * repetitive_behavior +
  0.2 * sensory_sensitivity + 0.18 * social_interaction_difficulty\<close> in binary64
  arithmetic, added from the left (the loop starts from \<open>0.0\<close> and multiplies the other
  way round, which changes nothing after the clamp). That expression clamps: it is \<open>0.0\<close>
  below 0, \<open>1.0\<close> above 1, the total itself in between (a zero becomes \<open>+0.0\<close>), and
  \<open>1.0\<close> when the total is not a number; so the probability always lies between 0 and 1.
  On such a value the label is \<open>Low Risk\<close> exactly below \<open>0.33\<close>, \<open>Moderate Risk\<close> exactly
  from \<open>0.33\<close> up to but excluding \<open>0.66\<close>, and \<open>High Risk\<close> exactly from \<open>0.66\<close> on: three
  cases that neither overlap nor leave a gap.
\<close>

theorem scoring_clamped_weighted_sum:
  "scoring req =
     Some (clamp01 (spec_weighted_sum req), risk_label (clamp01 (spec_weighted_sum req))) \<and>
   spec_weighted_sum req =
     fadd (fadd (fadd (fadd
       (fmul (round64 (18 / 100)) (eye_contact req))
       (fmul (round64 (22 / 100)) (speech_delay req)))
       (fmul (round64 (22 / 100)) (repetitive_behavior req)))
       (fmul (round64 (2 / 10)) (sensory_sensitivity req)))
       (fmul (round64 (18 / 100)) (social_interaction_difficulty req)) \<and>
   (truthy tok \<or> truthy uid \<longrightarrow>
      (\<exists>s'. predict req tok uid oid s =
         Inr (\<lparr>PredictResponse.assessment_id = oid,
                probability = clamp01 (spec_weighted_sum req),
                label = risk_label (clamp01 (spec_weighted_sum req))\<rparr>, s'))) \<and>
   clamp01 x =
     (if x = NaN then Finite 1
      else if flt x (Finite 0) then Finite 0
      else if flt (Finite 1) x then Finite 1
      else if is_zero x then Finite 0 else x) \<and>
   fle (Finite 0) (clamp01 x) \<and> fle (clamp01 x) (Finite 1) \<and>
   (risk_label (clamp01 x) = ''Low Risk'' \<longleftrightarrow> flt (clamp01 x) (round64 (33 / 100))) \<and>
   (risk_label (clamp01 x) = ''Moderate Risk'' \<longleftrightarrow>
      fle (round64 (33 / 100)) (clamp01 x) \<and> flt (clamp01 x) (round64 (66 / 100))) \<and>
   (risk_label (clamp01 x) = ''High Risk'' \<longleftrightarrow> fle (round64 (66 / 100)) (clamp01 x))"
proof -
  obtain q where q: "clamp01 x = Finite q"
    using clamp01_Finite [of x] by blast
  have a: "clamp01 x =
     (if x = NaN then Finite 1
      else if flt x (Finite 0) then Finite 0
      else if flt (Finite 1) x then Finite 1
      else if is_zero x then Finite 0 else x)"
    by (rule clamp01_cases)
  have sc: "scoring req =
     Some (clamp01 (spec_weighted_sum req), risk_label (clamp01 (spec_weighted_sum req)))"
    by (simp add: scoring_eq clamp01_weighted_sum)
  have pr: "truthy tok \<or> truthy uid \<longrightarrow>
      (\<exists>s'. predict req tok uid oid s =
         Inr (\<lparr>PredictResponse.assessment_id = oid,
                probability = clamp01 (spec_weighted_sum req),
                label = risk_label (clamp01 (spec_weighted_sum req))\<rparr>, s'))"
    using predict_response [of tok uid req oid s] by (simp add: clamp01_weighted_sum)
  from sc pr spec_weighted_sum_def [of req] a clamp01_range [of x] risk_label_partition [OF q]
  show ?thesis by blast
qed

theorem scoring_clamped_weighted_sum_witness:
  "scoring (all_features (Finite (1 / 2)) None) = Some (Finite (1 / 2), ''Moderate Risk'') \<and>
   (\<exists>s'. predict (all_features (Finite (1 / 2)) None) (Some ''tok-p1'') None ''a9'' ex_assessments =
      Inr (\<lparr>PredictResponse.assessment_id = ''a9'', probability = Finite (1 / 2),
             label = ''Moderate Risk''\<rparr>, s')) \<and>
   clamp01 PosInf = Finite 1 \<and> clamp01 NegInf = Finite 0 \<and> clamp01 NaN = Finite 1"
proof -
  note T = scoring_clamped_weighted_sum
  have h: "clamp01 (spec_weighted_sum (all_features (Finite (1 / 2)) None)) = Finite (1 / 2)"
    by (simp add: clamp01_weighted_sum [symmetric] weighted_sum_half clamp01_unit)
  have l: "risk_label (Finite (1 / 2)) = ''Moderate Risk''"
    by (simp add: risk_label_Finite)
  have 1: "scoring (all_features (Finite (1 / 2)) None) = Some (Finite (1 / 2), ''Moderate Risk'')"
    using T [where req = "all_features (Finite (1 / 2)) None", THEN conjunct1]
    by (simp add: h l)
  have 2: "\<exists>s'. predict (all_features (Finite (1 / 2)) None) (Some ''tok-p1'') None ''a9'' ex_assessments =
      Inr (\<lparr>PredictResponse.assessment_id = ''a9'', probability = Finite (1 / 2),
             label = ''Moderate Risk''\<rparr>, s')"
    using T [where req = "all_features (Finite (1 / 2)) None" and tok = "Some ''tok-p1''"
        and uid = None and oid = "''a9''" and s = ex_assessments,
        THEN conjunct2, THEN conjunct2, THEN conjunct1]
    by (simp add: h l truthy_def)
  have 3: "clamp01 PosInf = Finite 1"
    using T [where x = PosInf, THEN conjunct2, THEN conjunct2, THEN conjunct2, THEN conjunct1]
    by (simp add: flt_def)
  have 4: "clamp01 NegInf = Finite 0"
    using T [where x = NegInf, THEN conjunct2, THEN conjunct2, THEN conjunct2, THEN conjunct1]
    by (simp add: flt_def)
  have 5: "clamp01 NaN = Finite 1"
    using T [where x = NaN, THEN conjunct2, THEN conjunct2, THEN conjunct2, THEN conjunct1]
    by simp
  from 1 2 3 4 5 show ?thesis by blast
qed

text \<open>
  C2: with all five answers \<open>1.0\<close> the probability is exactly \<open>1.0\<close> and the label
  \<open>High Risk\<close>; with all \<open>0.0\<close>, exactly \<open>0.0\<close> and \<open>Low Risk\<close>; with all \<open>0.5\<close>, exactly
  \<open>0.5\<close> and \<open>Moderate Risk\<close>. These are the values of the scoring, and what \<open>predict\<close>
  returns whenever a token or a user id lets the call through.
\<close>

theorem predict_example_scores:
  "scoring (all_features (Finite 1) n) = Some (Finite 1, ''High Risk'') \<and>
   scoring (all_features (Finite 0) n) = Some (Finite 0, ''Low Risk'') \<and>
   scoring (all_features (Finite (1 / 2)) n) = Some (Finite (1 / 2), ''Moderate Risk'') \<and>
   (truthy tok \<or> truthy uid \<longrightarrow>
     (\<exists>s1. predict (all_features (Finite 1) n) tok uid oid s =
        Inr (\<lparr>PredictResponse.assessment_id = oid, probability = Finite 1, label = ''High Risk''\<rparr>, s1)) \<and>
     (\<exists>s0. predict (all_features (Finite 0) n) tok uid oid s =
        Inr (\<lparr>PredictResponse.assessment_id = oid, probability = Finite 0, label = ''Low Risk''\<rparr>, s0)) \<and>
     (\<exists>sh. predict (all_features (Finite (1 / 2)) n) tok uid oid s =
        Inr (\<lparr>PredictResponse.assessment_id = oid, probability = Finite (1 / 2),
               label = ''Moderate Risk''\<rparr>, sh)))"
proof -
  have c: "clamp01 (Finite 1) = Finite 1" "clamp01 (Finite 0) = Finite 0"
    "clamp01 (Finite (1 / 2)) = Finite (1 / 2)"
    by (simp_all add: clamp01_unit)
  have l: "risk_label (Finite 1) = ''High Risk''" "risk_label (Finite 0) = ''Low Risk''"
    "risk_label (Finite (1 / 2)) = ''Moderate Risk''"
    by (simp_all add: risk_label_Finite)
  show ?thesis
    using predict_response [of tok uid "all_features (Finite 1) n" oid s]
      predict_response [of tok uid "all_features (Finite 0) n" oid s]
      predict_response [of tok uid "all_features (Finite (1 / 2)) n" oid s]
    by (simp add: scoring_examples weighted_sum_one weighted_sum_zero weighted_sum_half c l)
qed

theorem predict_example_scores_witness:
  "(\<exists>s1. predict (all_features (Finite 1) None) (Some ''tok-p1'') None ''a9'' ex_assessments =
      Inr (\<lparr>PredictResponse.assessment_id = ''a9'', probability = Finite 1, label = ''High Risk''\<rparr>, s1)) \<and>
   (\<exists>s0. predict (all_features (Finite 0) None) (Some ''tok-p1'') None ''a9'' ex_assessments =
      Inr (\<lparr>PredictResponse.assessment_id = ''a9'', probability = Finite 0, label = ''Low Risk''\<rparr>, s0)) \<and>
   (\<exists>sh. predict (all_features (Finite (1 / 2)) None) (Some ''tok-p1'') None ''a9'' ex_assessments =
      Inr (\<lparr>PredictResponse.assessment_id = ''a9'', probability = Finite (1 / 2),
             label = ''Moderate Risk''\<rparr>, sh))"
  using predict_example_scores [of None "Some ''tok-p1''" None "''a9''" ex_assessments]
  by (simp add: truthy_def)

section \<open>Who an assessment is recorded for\<close>

text \<open>
  C6, as the code has it: \<open>predict\<close> fails, and then with 401 \<open>Authentication required\<close>,
  exactly when neither the token nor the user id is a non-empty string; absent and empty
  are treated alike. With a non-empty token it succeeds in every store, whether or not
  the token resolves to a session.
\<close>

theorem predict_fails_iff_nothing_truthy:
  "(predict req tok uid oid s = Inl e \<longleftrightarrow>
      e = HTTPException 401 ''Authentication required'' \<and> \<not> truthy tok \<and> \<not> truthy uid) \<and>
   (truthy tok \<longrightarrow> (\<exists>resp s'. predict req tok uid oid s = Inr (resp, s')))"
proof (cases "truthy tok \<or> truthy uid")
  case True
  then obtain resp s' where "predict req tok uid oid s = Inr (resp, s')"
    using predict_response [of tok uid req oid s] by blast
  with True show ?thesis by auto
next
  case False
  then have "predict req tok uid oid s = Inl (HTTPException 401 ''Authentication required'')"
    by (simp add: predict_cases)
  with False show ?thesis by auto
qed

theorem predict_fails_iff_nothing_truthy_witness:
  "resolve_session ''no-such-token'' empty_store = None \<and>
   (\<exists>resp s'. predict (all_features (Finite 1) None) (Some ''no-such-token'') None ''a9'' empty_store =
      Inr (resp, s')) \<and>
   predict (all_features (Finite 1) None) None None ''a9'' empty_store =
     Inl (HTTPException 401 ''Authentication required'')"
proof -
  have 0: "resolve_session ''no-such-token'' empty_store = None"
    by (simp add: resolve_session_None empty_store_def)
  have 1: "\<exists>resp s'. predict (all_features (Finite 1) None) (Some ''no-such-token'') None ''a9'' empty_store =
      Inr (resp, s')"
    using predict_fails_iff_nothing_truthy [of "all_features (Finite 1) None" "Some ''no-such-token''" None "''a9''" empty_store, THEN conjunct2]
    by (simp add: truthy_def)
  have 2: "predict (all_features (Finite 1) None) None None ''a9'' empty_store =
     Inl (HTTPException 401 ''Authentication required'')"
    using predict_fails_iff_nothing_truthy [of "all_features (Finite 1) None" None None "''a9''" empty_store "HTTPException 401 ''Authentication required''", THEN conjunct1]
    by (simp add: truthy_def)
  from 0 1 2 show ?thesis by blast
qed

text \<open>
  C6 as stated, on a token being supplied, fails: the empty string is a supplied token,
  no user id is given, and the call is refused.
\<close>

theorem predict_empty_token_counterexample:
  "Some [] \<noteq> (None :: string option) \<and>
   predict (all_features (Finite 1) None) (Some []) None ''a9'' empty_store =
     Inl (HTTPException 401 ''Authentication required'')"
  by (simp add: predict_def truthy_def)

text \<open>
  C7: in a store whose sessions all carry a non-empty \<open>user_id\<close> (every store the
  operations build from non-empty identifiers, see \<open>ids_nonempty\<close>), a call with a non-empty
  token and no user id appends one assessment, whose \<open>patient_id\<close> is the \<open>user_id\<close> of the
  session the token resolves to when that session has role \<open>patient\<close>, and \<open>unknown\<close> when
  the session has another role or the token resolves to nothing. With an empty token
  nothing is recorded: the call is refused.
\<close>

theorem predict_token_only_owner:
  assumes "\<forall>d\<in>set (session s). Session.user_id (snd d) \<noteq> []"
  shows "(t \<noteq> [] \<longrightarrow>
           (\<exists>resp a. predict req (Some t) None oid s =
                Inr (resp, s\<lparr>assessment := assessment s @ [(oid, a)]\<rparr>) \<and>
              Assessment.patient_id a =
                (case resolve_session t s of
                   None \<Rightarrow> ''unknown''
                 | Some sess \<Rightarrow> if Session.role sess = ''patient''
                                then Session.user_id sess else ''unknown''))) \<and>
         (t = [] \<longrightarrow> predict req (Some t) None oid s =
                       Inl (HTTPException 401 ''Authentication required''))"
proof -
  have ne: "Session.user_id sess \<noteq> []" if "resolve_session t s = Some sess" for sess
    using resolve_session_Some [OF that] assms by force
  have "recorded_patient (Some t) None s =
          (case resolve_session t s of
             None \<Rightarrow> ''unknown''
           | Some sess \<Rightarrow> if Session.role sess = ''patient''
                          then Session.user_id sess else ''unknown'')" if "t \<noteq> []"
    using that ne by (auto simp: recorded_patient_def truthy_def split: option.splits)
  then show ?thesis
    using predict_persists [of "Some t" None req oid s]
    by (auto simp: truthy_def predict_cases)
qed

theorem predict_token_only_owner_witness:
  "(\<exists>resp a. predict (all_features (Finite 1) None) (Some ''tok-p1'') None ''a9'' ex_assessments =
       Inr (resp, ex_assessments\<lparr>assessment := assessment ex_assessments @ [(''a9'', a)]\<rparr>) \<and>
     Assessment.patient_id a = ''p1'') \<and>
   (\<exists>resp a. predict (all_features (Finite 1) None) (Some ''tok-d1'') None ''a9'' ex_assessments =
       Inr (resp, ex_assessments\<lparr>assessment := assessment ex_assessments @ [(''a9'', a)]\<rparr>) \<and>
     Assessment.patient_id a = ''unknown'') \<and>
   (\<exists>resp a. predict (all_features (Finite 1) None) (Some ''tok-none'') None ''a9'' ex_assessments =
       Inr (resp, ex_assessments\<lparr>assessment := assessment ex_assessments @ [(''a9'', a)]\<rparr>) \<and>
     Assessment.patient_id a = ''unknown'')"
proof -
  have wf: "\<forall>d\<in>set (session ex_assessments). Session.user_id (snd d) \<noteq> []"
    by (simp add: ex_sessions)
  note T = predict_token_only_owner [OF wf, THEN conjunct1, rule_format]
  have 1: "\<exists>resp a. predict (all_features (Finite 1) None) (Some ''tok-p1'') None ''a9'' ex_assessments =
       Inr (resp, ex_assessments\<lparr>assessment := assessment ex_assessments @ [(''a9'', a)]\<rparr>) \<and>
     Assessment.patient_id a = ''p1''"
    using T [of "''tok-p1''" "all_features (Finite 1) None" "''a9''"] by (simp add: ex_resolve)
  have 2: "\<exists>resp a. predict (all_features (Finite 1) None) (Some ''tok-d1'') None ''a9'' ex_assessments =
       Inr (resp, ex_assessments\<lparr>assessment := assessment ex_assessments @ [(''a9'', a)]\<rparr>) \<and>
     Assessment.patient_id a = ''unknown''"
    using T [of "''tok-d1''" "all_features (Finite 1) None" "''a9''"] by (simp add: ex_resolve)
  have 3: "\<exists>resp a. predict (all_features (Finite 1) None) (Some ''tok-none'') None ''a9'' ex_assessments =
       Inr (resp, ex_assessments\<lparr>assessment := assessment ex_assessments @ [(''a9'', a)]\<rparr>) \<and>
     Assessment.patient_id a = ''unknown''"
    using T [of "''tok-none''" "all_features (Finite 1) None" "''a9''"] by (simp add: ex_resolve)
  from 1 2 3 show ?thesis by blast
qed

text \<open>
  C10, as the code has it: with a non-empty user id the assessment is recorded under
  that user id verbatim, whatever the token is or resolves to and whether or not a
  patient of that id is stored.
\<close>

theorem predict_user_id_wins:
  assumes "u \<noteq> []"
  shows "\<exists>resp a. predict req tok (Some u) oid s =
           Inr (resp, s\<lparr>assessment := assessment s @ [(oid, a)]\<rparr>) \<and>
         Assessment.patient_id a = u"
  using assms predict_persists [of tok "Some u" req oid s]
  by (simp add: truthy_def recorded_patient_def)

theorem predict_user_id_wins_witness:
  "''nobody'' \<notin> fst ` set (patient ex_assessments) \<and>
   (\<exists>resp a. predict (all_features (Finite 1) None) (Some ''tok-d1'') (Some ''nobody'') ''a9'' ex_assessments =
       Inr (resp, ex_assessments\<lparr>assessment := assessment ex_assessments @ [(''a9'', a)]\<rparr>) \<and>
     Assessment.patient_id a = ''nobody'')"
proof -
  have 0: "''nobody'' \<notin> fst ` set (patient ex_assessments)"
    by (simp add: ex_assessments_def ex_store_registered_def)
  have 1: "\<exists>resp a. predict (all_features (Finite 1) None) (Some ''tok-d1'') (Some ''nobody'') ''a9'' ex_assessments =
       Inr (resp, ex_assessments\<lparr>assessment := assessment ex_assessments @ [(''a9'', a)]\<rparr>) \<and>
     Assessment.patient_id a = ''nobody''"
    by (rule predict_user_id_wins) simp
  from 0 1 show ?thesis by blast
qed

text \<open>
  C10 as stated, on a user id being supplied, fails: with the empty string as user id
  the token is not ignored, and the assessment is recorded for the patient of the
  token's session, not under the user id given.
\<close>

theorem predict_empty_user_id_counterexample:
  "predict (all_features (Finite 1) None) (Some ''tok-p1'') (Some []) ''a9'' ex_assessments =
     Inr (\<lparr>PredictResponse.assessment_id = ''a9'', probability = Finite 1, label = ''High Risk''\<rparr>,
          ex_assessments\<lparr>assessment := assessment ex_assessments @
            [(''a9'', \<lparr>Assessment.patient_id = ''p1'',
               features = [(''eye_contact'', Finite 1), (''speech_delay'', Finite 1),
                           (''repetitive_behavior'', Finite 1), (''sensory_sensitivity'', Finite 1),
                           (''social_interaction_difficulty'', Finite 1)],
               score = Finite 1, probability = Finite 1, result_label = ''High Risk'',
               notes = Some [], reviewed_by = None, feedback_id = None\<rparr>)]\<rparr>)"
  by (simp add: predict_cases truthy_def recorded_patient_def ex_resolve weighted_sum_one
      clamp01_unit risk_label_Finite all_features_def [of "Finite 1" None, symmetric])
     (simp add: all_features_def)

end
